theory Spec2Isabelle
  imports Main "HOL-Library.Signed_Division"
begin

section \<open>Data model\<close>

text \<open>
  The step controller of \<^verbatim>\<open>pkg/controller/step_ctrl.go\<close>. The types of
  \<^verbatim>\<open>pkg/model\<close>, the variable store of \<^verbatim>\<open>pkg/context\<close> and the
  third-party libraries (\<^verbatim>\<open>rest\<close>, \<^verbatim>\<open>jsonq\<close>, \<^verbatim>\<open>viper\<close>) are
  not part of the file: their types are modelled from the description of the data model,
  their functions are parameters of the controller (record \<open>Env\<close> below).
\<close>

text \<open>Go's \<^verbatim>\<open>error\<close> values, by their message.\<close>

datatype error = Error string

text \<open>
  Modelled from the spec: \<^verbatim>\<open>model.StepType\<close> is declared in \<^verbatim>\<open>pkg/model\<close>. It is
  printed with \<^verbatim>\<open>%s\<close>, so it is a string type with the two constants \<^verbatim>\<open>Pause\<close>
  and \<^verbatim>\<open>RequestStep\<close>; every other string is \<open>OtherStepType\<close>, and the zero value
  is the empty string.
\<close>

datatype StepType = Pause | RequestStep | OtherStepType string

datatype Source = ResponseTime | ResponseStatus | ResponseHeader | ResponseJson

record Variable =
  Name :: string
  Source :: Source
  Property :: string

datatype ResultVariableType = Created | Used

record ResultVariable =
  Key :: string
  NewValue :: string
  Err :: "error option"
  Type :: ResultVariableType

text \<open>
  A decoded JSON value as Go holds it in an \<^verbatim>\<open>interface{}\<close>: \<^verbatim>\<open>nil\<close>,
  \<^verbatim>\<open>bool\<close>, \<^verbatim>\<open>float64\<close>, \<^verbatim>\<open>string\<close>, \<^verbatim>\<open>[]interface{}\<close> and
  \<^verbatim>\<open>map[string]interface{}\<close>. The type \<open>float64\<close> is left abstract.
\<close>

typedecl float64

datatype json =
    JNil
  | JBool bool
  | JFloat64 float64
  | JString string
  | JSlice "json list"
  | JMap "(string \<times> json) list"

text \<open>Durations and instants are \<^verbatim>\<open>int64\<close> counts of nanoseconds.\<close>

type_synonym Duration = int

record Response =
  StatusCode :: int
  Header :: "string \<rightharpoonup> string list"
  Body :: json
  TimeElapsed :: Duration

text \<open>The \<^verbatim>\<open>rest.Request\<close> and \<^verbatim>\<open>rest.Response\<close> structs of the transport client.\<close>

record rest_Request =
  req_Method :: string
  req_BaseURL :: string
  req_Headers :: "string \<rightharpoonup> string"
  req_QueryParams :: "string \<rightharpoonup> string"
  req_Body :: string

record rest_Response =
  raw_StatusCode :: int
  raw_Body :: string
  raw_Headers :: "string \<rightharpoonup> string list"

record 'a Step =
  StepType :: StepType
  Duration :: int
  Method :: string
  URL :: string
  Headers :: "string \<rightharpoonup> string list"
  StepBody :: string
  Assertions :: "'a list"
  Variables :: "Variable list"

record 'r ResultStep =
  res_StepType :: StepType
  res_Request :: rest_Request
  res_Response :: Response
  StepTime :: Duration
  Assertion :: "'r list"
  VariableCreated :: "ResultVariable list"
  VariableApplied :: "ResultVariable list"

text \<open>The zero values of the Go structs.\<close>

definition Request0 :: rest_Request where
  "Request0 = \<lparr>req_Method = [], req_BaseURL = [], req_Headers = Map.empty,
     req_QueryParams = Map.empty, req_Body = []\<rparr>"

definition Response0 :: Response where
  "Response0 = \<lparr>StatusCode = 0, Header = Map.empty, Body = JNil, TimeElapsed = 0\<rparr>"

definition ResultStep0 :: "'r ResultStep" where
  "ResultStep0 = \<lparr>res_StepType = OtherStepType [], res_Request = Request0,
     res_Response = Response0, StepTime = 0, Assertion = [], VariableCreated = [],
     VariableApplied = []\<rparr>"

section \<open>The variable store and the calls to the collaborators\<close>

text \<open>
  Modelled from the spec: the variable store of \<^verbatim>\<open>pkg/context\<close> is a table from
  names to string values; \<^verbatim>\<open>Add\<close> inserts or overwrites. \<^verbatim>\<open>Patch\<close> reads the
  store and returns the patched string; it is a parameter (\<open>Patch\<close> of \<open>Env\<close>).
\<close>

type_synonym Context = "string \<rightharpoonup> string"

text \<open>
  The state a step runs in: the process-wide store, and the calls made so far to the
  transport client, to the assertion controller and to \<^verbatim>\<open>Add\<close>, oldest first.
\<close>

datatype 'a Event = EvSend rest_Request | EvAssert 'a | EvAdd string string

record 'a World =
  store :: Context
  trace :: "'a Event list"

definition Add :: "string \<Rightarrow> string \<Rightarrow> 'a World \<Rightarrow> 'a World" where
  "Add name v w = w\<lparr>store := (store w)(name \<mapsto> v), trace := trace w @ [EvAdd name v]\<rparr>"

text \<open>
  The collaborators and the environment of one call of \<^verbatim>\<open>Run\<close>:
  \<^item> \<open>ExtractUrl\<close>: the method \<^verbatim>\<open>step.ExtractUrl()\<close> of \<^verbatim>\<open>pkg/model\<close>;
  \<^item> \<open>ConfigHeaders\<close>: \<^verbatim>\<open>viper.GetStringMapString("headers")\<close>;
  \<^item> \<open>Patch\<close>: \<^verbatim>\<open>context.GetContext().Patch\<close>, on the current store;
  \<^item> \<open>Range\<close>: the order in which a \<^verbatim>\<open>range\<close> loop visits the keys of a map
    (Go leaves it unspecified);
  \<^item> \<open>Send\<close>: the transport client; \<open>NewResponse\<close>: \<^verbatim>\<open>model.NewResponse\<close>;
  \<^item> \<open>Assert\<close>: the assertion controller;
  \<^item> \<open>NowStart\<close>, \<open>NowEnd\<close>: the two readings of \<^verbatim>\<open>time.Now()\<close>, in nanoseconds;
  \<^item> \<open>JsonConvertKeyName\<close>: the utility of \<^verbatim>\<open>pkg/util\<close>; \<open>Query\<close>:
    \<^verbatim>\<open>jsonq.NewQuery(body).Interface(path...)\<close>, which returns a value and an error;
  \<^item> \<open>FormatG\<close>: \<^verbatim>\<open>fmt.Sprintf("%g", v)\<close> on a \<^verbatim>\<open>float64\<close>.
\<close>

record ('a, 'r) Env =
  ExtractUrl :: "'a Step \<Rightarrow> error + (string \<times> (string \<rightharpoonup> string))"
  ConfigHeaders :: "string \<rightharpoonup> string"
  Patch :: "Context \<Rightarrow> string \<Rightarrow> string"
  Range :: "(string \<rightharpoonup> string) \<Rightarrow> string list"
  Send :: "rest_Request \<Rightarrow> error + rest_Response"
  NewResponse :: "rest_Response \<Rightarrow> Duration \<Rightarrow> error + Response"
  Assert :: "'a \<Rightarrow> Response \<Rightarrow> 'r"
  NowStart :: int
  NowEnd :: int
  JsonConvertKeyName :: "string \<Rightarrow> string list"
  Query :: "json \<Rightarrow> string list \<Rightarrow> json \<times> error option"
  FormatG :: "float64 \<Rightarrow> string"

section \<open>Integers, durations and their formatting (Go's standard library)\<close>

definition minDuration :: Duration where
  "minDuration = - (2 ^ 63)"

definition maxDuration :: Duration where
  "maxDuration = 2 ^ 63 - 1"

definition Millisecond :: Duration where
  "Millisecond = 1000000"

text \<open>The value of an \<^verbatim>\<open>int64\<close> operation, wrapped into the range of the type.\<close>

definition wrap64 :: "int \<Rightarrow> int" where
  "wrap64 x = (x + 2 ^ 63) mod 2 ^ 64 - 2 ^ 63"

definition uint64 :: "int \<Rightarrow> int" where
  "uint64 x = x mod 2 ^ 64"

definition lessThanHalf :: "Duration \<Rightarrow> Duration \<Rightarrow> bool" where
  "lessThanHalf x y = ((uint64 x + uint64 x) mod 2 ^ 64 < uint64 y)"

text \<open>
  \<^verbatim>\<open>Duration.Round\<close>: the nearest multiple of \<open>m\<close>, halfway values away from zero,
  the maximum (or minimum) duration when the result overflows. Go's \<^verbatim>\<open>%\<close> truncates
  towards zero (\<open>smod\<close>).
\<close>

definition Round :: "Duration \<Rightarrow> Duration \<Rightarrow> Duration" where
  "Round d m =
     (if m \<le> 0 then d
      else if d < 0 then
        (let r = wrap64 (- (d smod m)) in
         if lessThanHalf r m then wrap64 (d + r)
         else (let d1 = wrap64 (d - m + r) in if d1 < d then d1 else minDuration))
      else
        (let r = d smod m in
         if lessThanHalf r m then wrap64 (d - r)
         else (let d1 = wrap64 (d + m - r) in if d1 > d then d1 else maxDuration)))"

text \<open>\<^verbatim>\<open>Time.Sub\<close>: the difference of two instants, saturating.\<close>

definition Sub :: "int \<Rightarrow> int \<Rightarrow> Duration" where
  "Sub t u = max minDuration (min maxDuration (t - u))"

text \<open>\<^verbatim>\<open>strconv.FormatInt(i, 10)\<close>, also what \<^verbatim>\<open>%v\<close> prints for an \<^verbatim>\<open>int\<close>.\<close>

definition digit :: "nat \<Rightarrow> char" where
  "digit d = ''0123456789'' ! d"

function formatBits :: "nat \<Rightarrow> string" where
  "formatBits n = (if n < 10 then [digit n] else formatBits (n div 10) @ [digit (n mod 10)])"
  by pat_completeness auto
termination
  by (relation "measure id") auto

declare formatBits.simps [simp del]

definition FormatInt :: "int \<Rightarrow> string" where
  "FormatInt i = (if i < 0 then CHR ''-'' # formatBits (nat (- i)) else formatBits (nat i))"

text \<open>\<^verbatim>\<open>strconv.FormatBool\<close>.\<close>

definition FormatBool :: "bool \<Rightarrow> string" where
  "FormatBool b = (if b then ''true'' else ''false'')"

text \<open>
  What \<^verbatim>\<open>%s\<close> prints for \<^verbatim>\<open>reflect.TypeOf(v)\<close>; for \<^verbatim>\<open>nil\<close> there is no type
  and \<^verbatim>\<open>fmt\<close> prints its marker of a missing operand.
\<close>

fun TypeOf :: "json \<Rightarrow> string" where
  "TypeOf JNil = ''%!s(<nil>)''"
| "TypeOf (JBool b) = ''bool''"
| "TypeOf (JFloat64 x) = ''float64''"
| "TypeOf (JString s) = ''string''"
| "TypeOf (JSlice xs) = ''[]interface {}''"
| "TypeOf (JMap kvs) = ''map[string]interface {}''"

section \<open>The response extractor\<close>

text \<open>
  The type switch on the extracted value, lines 175 to 200: a string, a boolean and a
  number are stored and recorded, every other value is recorded with an error.
\<close>

fun exportValue ::
  "('a, 'r) Env \<Rightarrow> Variable \<Rightarrow> json \<Rightarrow> 'a World \<times> ResultVariable list \<Rightarrow>
     'a World \<times> ResultVariable list" where
  "exportValue env variable (JString v) (w, result) =
     (Add (Name variable) v w,
      result @ [\<lparr>Key = Name variable, NewValue = v, Err = None, Type = Created\<rparr>])"
| "exportValue env variable (JBool v) (w, result) =
     (let castValue = FormatBool v in
      (Add (Name variable) castValue w,
       result @ [\<lparr>Key = Name variable, NewValue = castValue, Err = None, Type = Created\<rparr>]))"
| "exportValue env variable (JFloat64 v) (w, result) =
     (let castValue = FormatG env v in
      (Add (Name variable) castValue w,
       result @ [\<lparr>Key = Name variable, NewValue = castValue, Err = None, Type = Created\<rparr>]))"
| "exportValue env variable extractedKey (w, result) =
     (w, result @ [\<lparr>Key = Name variable, NewValue = [],
        Err = Some (Error (''type '' @ TypeOf extractedKey @
                 '' not valid type to export as a variable'')),
        Type = Created\<rparr>])"

text \<open>The body of the loop of \<^verbatim>\<open>attachVariablesToContext\<close>, for one declaration.\<close>

definition attachVariable ::
  "('a, 'r) Env \<Rightarrow> Response \<Rightarrow> Variable \<Rightarrow> 'a World \<times> ResultVariable list \<Rightarrow>
     'a World \<times> ResultVariable list" where
  "attachVariable env response variable acc =
     (case acc of (w, result) \<Rightarrow>
      if length (Name variable) = 0 then (w, result)
      else (case Source variable of
          ResponseTime \<Rightarrow>
            (let v = FormatInt (Round (TimeElapsed response) Millisecond sdiv Millisecond) in
             (Add (Name variable) v w,
              result @ [\<lparr>Key = Name variable, NewValue = v, Err = None, Type = Created\<rparr>]))
        | ResponseStatus \<Rightarrow>
            (let v = FormatInt (StatusCode response) in
             (Add (Name variable) v w,
              result @ [\<lparr>Key = Name variable, NewValue = v, Err = None, Type = Created\<rparr>]))
        | ResponseHeader \<Rightarrow>
            (case Header response (Property variable) of
               Some (h # hs) \<Rightarrow>
                 (Add (Name variable) h w,
                  result @ [\<lparr>Key = Name variable, NewValue = h, Err = None, Type = Created\<rparr>])
             | _ \<Rightarrow> (w, result))
        | ResponseJson \<Rightarrow>
            (let jqPath = JsonConvertKeyName env (Property variable) in
             case Query env (Body response) jqPath of (extractedKey, err) \<Rightarrow>
               exportValue env variable extractedKey
                 (w, case err of
                       Some e \<Rightarrow> result @ [\<lparr>Key = Name variable, NewValue = [],
                                   Err = Some e, Type = Created\<rparr>]
                     | None \<Rightarrow> result))))"

fun attachLoop ::
  "('a, 'r) Env \<Rightarrow> Response \<Rightarrow> Variable list \<Rightarrow> 'a World \<times> ResultVariable list \<Rightarrow>
     'a World \<times> ResultVariable list" where
  "attachLoop env response [] acc = acc"
| "attachLoop env response (variable # vars) acc =
     attachLoop env response vars (attachVariable env response variable acc)"

definition attachVariablesToContext ::
  "('a, 'r) Env \<Rightarrow> Response \<Rightarrow> Variable list \<Rightarrow> 'a World \<Rightarrow>
     ResultVariable list \<times> 'a World" where
  "attachVariablesToContext env response vars w =
     (case attachLoop env response vars (w, []) of (w', result) \<Rightarrow> (result, w'))"

section \<open>The request builder\<close>

text \<open>
  \<^verbatim>\<open>patch\<close> applies the store to \<open>initial\<close> and appends a record to
  \<open>variables\<close> when the string changed; the model returns the patched string and the
  updated slice.
\<close>

definition patch ::
  "('a, 'r) Env \<Rightarrow> Context \<Rightarrow> string \<Rightarrow> string \<Rightarrow> ResultVariable list \<Rightarrow>
     string \<times> ResultVariable list" where
  "patch env ctx initial name variables =
     (let initialValue = initial;
          patchedValue = Patch env ctx initial
      in (patchedValue,
          if initialValue \<noteq> patchedValue
          then variables @ [\<lparr>Key = name, NewValue = patchedValue, Err = None, Type = Used\<rparr>]
          else variables))"

text \<open>
  The two loops \<^verbatim>\<open>for key, value := range m { m[key] = patch(value, label, &result) }\<close>
  of lines 232 to 237, over the keys in the order the \<^verbatim>\<open>range\<close> visits them.
\<close>

fun patchEach ::
  "('a, 'r) Env \<Rightarrow> Context \<Rightarrow> (string \<Rightarrow> string) \<Rightarrow> string list \<Rightarrow>
     (string \<rightharpoonup> string) \<times> ResultVariable list \<Rightarrow> (string \<rightharpoonup> string) \<times> ResultVariable list" where
  "patchEach env ctx label [] acc = acc"
| "patchEach env ctx label (key # keys) (m, result) =
     (case m key of
        None \<Rightarrow> patchEach env ctx label keys (m, result)
      | Some v \<Rightarrow>
          (case patch env ctx v (label key) result of
             (patched, result') \<Rightarrow> patchEach env ctx label keys (m(key \<mapsto> patched), result')))"

text \<open>
  Lines 216 to 227: the first value of every declared header with a value, then the
  headers of the configuration, each patched, over the declared ones.
\<close>

definition flattenHeaders :: "(string \<rightharpoonup> string list) \<Rightarrow> (string \<rightharpoonup> string)" where
  "flattenHeaders hs = (\<lambda>key. case hs key of Some (v # vs) \<Rightarrow> Some v | _ \<Rightarrow> None)"

definition mergeHeaders :: "('a, 'r) Env \<Rightarrow> Context \<Rightarrow> 'a Step \<Rightarrow> (string \<rightharpoonup> string)" where
  "mergeHeaders env ctx step =
     (\<lambda>key. case ConfigHeaders env key of
               Some v \<Rightarrow> Some (Patch env ctx v)
             | None \<Rightarrow> flattenHeaders (Headers step) key)"

definition convertAndPatchToHttpRequest ::
  "('a, 'r) Env \<Rightarrow> Context \<Rightarrow> 'a Step \<Rightarrow> rest_Request \<times> ResultVariable list \<times> error option" where
  "convertAndPatchToHttpRequest env ctx step =
     (case ExtractUrl env step of
        Inl err \<Rightarrow> (Request0, [], Some err)
      | Inr (baseUrl, queryParams) \<Rightarrow>
          (let headers = mergeHeaders env ctx step in
           case patch env ctx (StepBody step) ''body'' [] of (bodyPatched, result1) \<Rightarrow>
           case patch env ctx baseUrl ''URL'' result1 of (urlPatched, result2) \<Rightarrow>
           case patchEach env ctx (\<lambda>key. ''params['' @ key @ '']'')
                  (Range env queryParams) (queryParams, result2) of (queryParams', result3) \<Rightarrow>
           case patchEach env ctx (\<lambda>key. ''headers.'' @ key)
                  (Range env headers) (headers, result3) of (headers', result4) \<Rightarrow>
             (\<lparr>req_Method = Method step, req_BaseURL = urlPatched, req_Headers = headers',
               req_QueryParams = queryParams', req_Body = bodyPatched\<rparr>, result4, None)))"

section \<open>The step engine\<close>

text \<open>
  The calls to the logger (\<^verbatim>\<open>logrus\<close>, \<^verbatim>\<open>printRestRequest\<close>, \<^verbatim>\<open>Print\<close>) have
  no effect on the result or on the store and are left out.
\<close>

text \<open>\<^verbatim>\<open>assertResponse\<close>: one call of the assertion controller per assertion.\<close>

fun assertLoop ::
  "('a, 'r) Env \<Rightarrow> Response \<Rightarrow> 'a list \<Rightarrow> 'a World \<times> 'r list \<Rightarrow> 'a World \<times> 'r list" where
  "assertLoop env response [] acc = acc"
| "assertLoop env response (assertion # assertions) (w, result) =
     (let assertionResult = Assert env assertion response in
      assertLoop env response assertions
        (w\<lparr>trace := trace w @ [EvAssert assertion]\<rparr>, result @ [assertionResult]))"

definition assertResponse ::
  "('a, 'r) Env \<Rightarrow> Response \<Rightarrow> 'a list \<Rightarrow> 'a World \<Rightarrow> 'r list \<times> 'a World" where
  "assertResponse env response assertions w =
     (case assertLoop env response assertions (w, []) of (w', result) \<Rightarrow> (result, w'))"

text \<open>
  \<^verbatim>\<open>pause\<close>: the wait itself is not modelled, the result holds the kind and the
  time between the two readings of the clock.
\<close>

definition pause :: "('a, 'r) Env \<Rightarrow> int \<Rightarrow> 'a World \<Rightarrow> 'r ResultStep \<times> error option \<times> 'a World" where
  "pause env numberOfSecond w =
     (ResultStep0\<lparr>res_StepType := Pause, StepTime := Sub (NowEnd env) (NowStart env)\<rparr>, None, w)"

definition request :: "('a, 'r) Env \<Rightarrow> 'a Step \<Rightarrow> 'a World \<Rightarrow> 'r ResultStep \<times> error option \<times> 'a World" where
  "request env step w =
     (case convertAndPatchToHttpRequest env (store w) step of (req, variables, err) \<Rightarrow>
      (case err of
         Some e \<Rightarrow> (ResultStep0, Some (Error ''impossible to convert the request''), w)
       | None \<Rightarrow>
          (let result0 = ResultStep0\<lparr>res_StepType := RequestStep, res_Request := req\<rparr>;
               result1 = result0\<lparr>VariableApplied := variables\<rparr>;
               w1 = w\<lparr>trace := trace w @ [EvSend req]\<rparr>;
               elapsed = Sub (NowEnd env) (NowStart env);
               result2 = result1\<lparr>StepTime := elapsed\<rparr>
           in case Send env req of
                Inl err \<Rightarrow> (result2, Some err, w1)
              | Inr res \<Rightarrow>
                  (case NewResponse env res elapsed of
                     Inl err \<Rightarrow> (result2, Some err, w1)
                   | Inr response \<Rightarrow>
                       (let result3 = result2\<lparr>res_Response := response\<rparr> in
                        case assertResponse env response (Assertions step) w1 of
                          (assertion, w2) \<Rightarrow>
                            (case attachVariablesToContext env response (Variables step) w2 of
                               (created, w3) \<Rightarrow>
                                 (result3\<lparr>Assertion := assertion, VariableCreated := created\<rparr>,
                                  None, w3)))))))"

definition Run :: "('a, 'r) Env \<Rightarrow> 'a Step \<Rightarrow> 'a World \<Rightarrow> 'r ResultStep \<times> error option \<times> 'a World" where
  "Run env step w =
     (case StepType step of
        Pause \<Rightarrow> pause env (Duration step) w
      | RequestStep \<Rightarrow> request env step w
      | OtherStepType s \<Rightarrow> (ResultStep0, Some (Error (s @ '' is an invalid step_type'')), w))"

section \<open>Definitions used in the statements\<close>

text \<open>
  A duration rounded to whole milliseconds, as the specification words it: the nearest
  integer number of milliseconds, a half rounding away from zero.
\<close>

definition roundToMillisecond :: "int \<Rightarrow> int" where
  "roundToMillisecond d =
     (if 0 \<le> d then (d + 500000) div 1000000 else - ((- d + 500000) div 1000000))"

text \<open>Reading a decimal integer string back, to state what \<open>FormatInt\<close> prints.\<close>

definition decimalValue :: "string \<Rightarrow> nat" where
  "decimalValue s = foldl (\<lambda>a c. 10 * a + (of_char c - 48)) 0 s"

definition parseInt :: "string \<Rightarrow> int" where
  "parseInt s = (case s of
       c # cs \<Rightarrow> if c = CHR ''-'' then - int (decimalValue cs) else int (decimalValue s)
     | [] \<Rightarrow> 0)"

text \<open>The calls of \<^verbatim>\<open>Add\<close> among the calls to the collaborators.\<close>

fun isAdd :: "'a Event \<Rightarrow> bool" where
  "isAdd (EvAdd name v) = True"
| "isAdd (EvSend req) = False"
| "isAdd (EvAssert a) = False"

text \<open>The record that \<^verbatim>\<open>patch\<close> appends for a field it changed.\<close>

abbreviation usedRecord :: "string \<Rightarrow> string \<Rightarrow> ResultVariable" where
  "usedRecord name v \<equiv> \<lparr>Key = name, NewValue = v, Err = None, Type = Used\<rparr>"

text \<open>The record of a value that an extraction stored.\<close>

abbreviation createdRecord :: "string \<Rightarrow> string \<Rightarrow> ResultVariable" where
  "createdRecord name v \<equiv> \<lparr>Key = name, NewValue = v, Err = None, Type = Created\<rparr>"

text \<open>
  A concrete environment for the examples: a URL decomposes when it starts with
  \<^verbatim>\<open>http\<close> and then has the one query parameter \<^verbatim>\<open>id\<close>; a template is patched
  when it is the name of a stored variable; the transport fails for the host
  \<^verbatim>\<open>http://down\<close>; the query looks a key up in the top-level object.
\<close>

definition exampleEnv :: "(string, bool) Env" where
  "exampleEnv =
     \<lparr>ExtractUrl = (\<lambda>step. if take 4 (URL step) = ''http''
                            then Inr (URL step, [''id'' \<mapsto> ''token''])
                            else Inl (Error ''cannot parse the url'')),
      ConfigHeaders = Map.empty,
      Patch = (\<lambda>ctx s. case ctx s of Some v \<Rightarrow> v | None \<Rightarrow> s),
      Range = (\<lambda>m. filter (\<lambda>key. m key \<noteq> None) [''id'', ''Accept'']),
      Send = (\<lambda>req. if req_BaseURL req = ''http://down''
                      then Inl (Error ''connection refused'')
                      else Inr \<lparr>raw_StatusCode = 200, raw_Body = [],
                                raw_Headers = [''X-Req-Id'' \<mapsto> [''abc'']]\<rparr>),
      NewResponse = (\<lambda>res elapsed.
                       Inr \<lparr>StatusCode = raw_StatusCode res, Header = raw_Headers res,
                            Body = JMap [(''user'', JMap [])], TimeElapsed = elapsed\<rparr>),
      Assert = (\<lambda>assertion response.
                  assertion = ''status is 200'' \<and> StatusCode response = 200),
      NowStart = 1000,
      NowEnd = 123601000,
      JsonConvertKeyName = (\<lambda>property. [property]),
      Query = (\<lambda>body path. case body of
                 JMap kvs \<Rightarrow> (case map_of kvs (concat path) of
                                Some v \<Rightarrow> (v, None)
                              | None \<Rightarrow> (JNil, Some (Error ''Object does not contain field'')))
               | _ \<Rightarrow> (JNil, Some (Error ''not an object''))),
      FormatG = (\<lambda>v. ''?'')\<rparr>"

definition exampleStep :: "string Step" where
  "exampleStep =
     \<lparr>StepType = RequestStep, Duration = 0, Method = ''GET'', URL = ''http://api'',
      Headers = [''Accept'' \<mapsto> [''json'']], StepBody = ''token'',
      Assertions = [''status is 200'', ''body is empty''],
      Variables = [\<lparr>Name = ''rid'', Source = ResponseHeader, Property = ''X-Req-Id''\<rparr>]\<rparr>"

definition exampleWorld :: "string World" where
  "exampleWorld = \<lparr>store = [''token'' \<mapsto> ''abc''], trace = []\<rparr>"

text \<open>The same step against a host that is down, and with a URL that does not decompose.\<close>

definition downStep :: "string Step" where
  "downStep = exampleStep\<lparr>URL := ''http://down''\<rparr>"

definition badStep :: "string Step" where
  "badStep = exampleStep\<lparr>URL := ''::bad''\<rparr>"

text \<open>
  The example step with two declarations, the elapsed time and a header; and with a
  declaration of a header the response does not have.
\<close>

definition twoVarStep :: "string Step" where
  "twoVarStep = exampleStep\<lparr>Variables :=
      [\<lparr>Name = ''elapsed'', Source = ResponseTime, Property = []\<rparr>,
       \<lparr>Name = ''rid'', Source = ResponseHeader, Property = ''X-Req-Id''\<rparr>]\<rparr>"

definition otherHeaderStep :: "string Step" where
  "otherHeaderStep = exampleStep\<lparr>Variables :=
      [\<lparr>Name = ''elapsed'', Source = ResponseTime, Property = []\<rparr>,
       \<lparr>Name = ''rid'', Source = ResponseHeader, Property = ''X-Other''\<rparr>]\<rparr>"

text \<open>
  A pause step, and the environment of the examples with a response that cannot be parsed.
\<close>

definition pauseStep :: "string Step" where
  "pauseStep = exampleStep\<lparr>StepType := Pause, Duration := 2\<rparr>"

definition parseFailEnv :: "(string, bool) Env" where
  "parseFailEnv = exampleEnv\<lparr>NewResponse := (\<lambda>res elapsed. Inl (Error ''invalid character''))\<rparr>"

text \<open>
  The environment of the examples with a header \<^verbatim>\<open>Authorization\<close> in the
  configuration, and the example step with a declared header that is a template.
\<close>

definition overrideEnv :: "(string, bool) Env" where
  "overrideEnv = exampleEnv\<lparr>ConfigHeaders := [''Authorization'' \<mapsto> ''token''],
      Range := (\<lambda>m. filter (\<lambda>key. m key \<noteq> None) [''id'', ''Accept'', ''Authorization''])\<rparr>"

definition patchStep :: "string Step" where
  "patchStep = exampleStep\<lparr>Headers := [''Accept'' \<mapsto> [''token'', ''json'']]\<rparr>"

section \<open>Rounding and formatting\<close>

lemma formatBits_small: "n < 10 \<Longrightarrow> formatBits n = [digit n]"
  by (simp add: formatBits.simps)

lemma formatBits_large: "10 \<le> n \<Longrightarrow> formatBits n = formatBits (n div 10) @ [digit (n mod 10)]"
  by (simp add: formatBits.simps)

lemma wrap64_id: "- (2 ^ 63) \<le> x \<Longrightarrow> x < 2 ^ 63 \<Longrightarrow> wrap64 x = x"
  by (simp add: wrap64_def)

lemma lessThanHalf_small:
  assumes "0 \<le> r" "r < 1000000"
  shows "lessThanHalf r Millisecond = (2 * r < 1000000)"
proof -
  have "uint64 r = r" using assms by (simp add: uint64_def)
  moreover have "(r + r) mod 2 ^ 64 = r + r" using assms by simp
  moreover have "uint64 Millisecond = 1000000" by (simp add: uint64_def Millisecond_def)
  ultimately show ?thesis by (simp add: lessThanHalf_def)
qed

lemma Round_nonneg:
  assumes "0 \<le> d" "d \<le> maxDuration - Millisecond"
  shows "Round d Millisecond sdiv Millisecond = (d + 500000) div 1000000"
proof -
  define r where "r = d mod 1000000"
  define q where "q = d div 1000000"
  have d: "d = q * 1000000 + r" by (simp add: r_def q_def)
  have r: "0 \<le> r" "r < 1000000" by (simp_all add: r_def)
  have q: "0 \<le> q" using assms(1) by (simp add: q_def pos_imp_zdiv_nonneg_iff)
  have dmax: "d + 1000000 < 2 ^ 63" using assms(2) by (simp add: maxDuration_def Millisecond_def)
  have smod: "d smod Millisecond = r"
    using assms(1) by (simp add: signed_modulo_int_def Millisecond_def r_def sgn_if)
  have half: "lessThanHalf r Millisecond = (2 * r < 1000000)"
    using r by (rule lessThanHalf_small)
  show ?thesis
  proof (cases "2 * r < 1000000")
    case True
    have w: "wrap64 (d - r) = q * 1000000"
      using q d r dmax by (simp add: wrap64_id)
    have "Round d Millisecond = q * 1000000"
      using assms(1) True half smod w by (simp add: Round_def Millisecond_def Let_def)
    moreover have "(q * 1000000) sdiv Millisecond = q"
      using q by (simp add: signed_divide_int_def Millisecond_def sgn_if)
    moreover have "(d + 500000) div 1000000 = q"
      using True r d by simp
    ultimately show ?thesis by simp
  next
    case False
    have w: "wrap64 (d + Millisecond - r) = (q + 1) * 1000000"
      using q d r dmax by (simp add: wrap64_id Millisecond_def)
    have gt: "(q + 1) * 1000000 > d" using d r by simp
    have "Round d Millisecond = (q + 1) * 1000000"
      using assms(1) False half smod w gt by (simp add: Round_def Let_def) (simp add: Millisecond_def)
    moreover have "((q + 1) * 1000000) sdiv Millisecond = q + 1"
      using q by (simp add: signed_divide_int_def Millisecond_def sgn_if)
    moreover have "(d + 500000) div 1000000 = q + 1"
    proof -
      have "d + 500000 = (q + 1) * 1000000 + (r - 500000)" using d by simp
      moreover have "0 \<le> r - 500000" "r - 500000 < 1000000" using False r by simp_all
      ultimately show ?thesis
        by (metis div_pos_pos_trivial add.commute div_mult_self2 zero_neq_numeral add.right_neutral mult.commute)
    qed
    ultimately show ?thesis by simp
  qed
qed


lemma Round_neg:
  assumes "d < 0" "- d \<le> maxDuration - Millisecond"
  shows "Round d Millisecond sdiv Millisecond = - ((- d + 500000) div 1000000)"
proof -
  define r where "r = (- d) mod 1000000"
  define q where "q = (- d) div 1000000"
  have d: "- d = q * 1000000 + r" by (simp add: r_def q_def)
  have r: "0 \<le> r" "r < 1000000" by (simp_all add: r_def)
  have q: "0 \<le> q" using assms(1) by (simp add: q_def pos_imp_zdiv_nonneg_iff)
  have dmax: "- d + 1000000 < 2 ^ 63" using assms(2) by (simp add: maxDuration_def Millisecond_def)
  have smod: "wrap64 (- (d smod Millisecond)) = r"
    using assms(1) r by (simp add: signed_modulo_int_def Millisecond_def r_def sgn_if wrap64_id)
  have half: "lessThanHalf r Millisecond = (2 * r < 1000000)"
    using r by (rule lessThanHalf_small)
  show ?thesis
  proof (cases "2 * r < 1000000")
    case True
    have "d + r = - (q * 1000000)" using d by simp
    then have w: "wrap64 (d + r) = - (q * 1000000)"
      using q d r dmax by (simp add: wrap64_id)
    have "Round d Millisecond = - (q * 1000000)"
      using assms(1) True half smod w by (simp add: Round_def Let_def) (simp add: Millisecond_def)
    moreover have "(- (q * 1000000)) sdiv Millisecond = - q"
      using q by (simp add: signed_divide_int_def Millisecond_def sgn_if)
    moreover have "(- d + 500000) div 1000000 = q"
      using True r d by simp
    ultimately show ?thesis by simp
  next
    case False
    have "d - Millisecond + r = - ((q + 1) * 1000000)" using d by (simp add: Millisecond_def)
    then have w: "wrap64 (d - Millisecond + r) = - ((q + 1) * 1000000)"
      using q d r dmax by (simp add: wrap64_id)
    have lt: "- ((q + 1) * 1000000) < d" using d r by simp
    have "Round d Millisecond = - ((q + 1) * 1000000)"
      using assms(1) False half smod w lt by (simp add: Round_def Let_def) (simp add: Millisecond_def)
    moreover have "(- ((q + 1) * 1000000)) sdiv Millisecond = - (q + 1)"
      using q by (simp add: signed_divide_int_def Millisecond_def sgn_if)
    moreover have "(- d + 500000) div 1000000 = q + 1"
    proof -
      have "- d + 500000 = (q + 1) * 1000000 + (r - 500000)" using d by simp
      moreover have "0 \<le> r - 500000" "r - 500000 < 1000000" using False r by simp_all
      ultimately show ?thesis
        by (metis div_pos_pos_trivial add.commute div_mult_self2 zero_neq_numeral add.right_neutral mult.commute)
    qed
    ultimately show ?thesis by simp
  qed
qed

lemma Round_Millisecond:
  assumes "\<bar>d\<bar> \<le> maxDuration - Millisecond"
  shows "Round d Millisecond sdiv Millisecond = roundToMillisecond d"
proof (cases "0 \<le> d")
  case True
  then show ?thesis using assms Round_nonneg [of d] by (simp add: roundToMillisecond_def)
next
  case False
  then show ?thesis using assms Round_neg [of d] by (simp add: roundToMillisecond_def)
qed

lemma roundToMillisecond_nearest: "2 * \<bar>d - roundToMillisecond d * 1000000\<bar> \<le> 1000000"
proof (cases "0 \<le> d")
  case True
  have "d + 500000 = (d + 500000) div 1000000 * 1000000 + (d + 500000) mod 1000000" by simp
  moreover have "0 \<le> (d + 500000) mod 1000000" "(d + 500000) mod 1000000 < 1000000" by simp_all
  ultimately show ?thesis using True by (simp add: roundToMillisecond_def)
next
  case False
  have "- d + 500000 = (- d + 500000) div 1000000 * 1000000 + (- d + 500000) mod 1000000" by simp
  moreover have "0 \<le> (- d + 500000) mod 1000000" "(- d + 500000) mod 1000000 < 1000000" by simp_all
  ultimately show ?thesis using False by (simp add: roundToMillisecond_def)
qed

lemma digit_value: "d < 10 \<Longrightarrow> of_char (digit d) = (48 + d :: nat)"
proof -
  assume "d < 10"
  then have "d \<in> {0, 1, 2, 3, 4, 5, 6, 7, 8, 9}" by auto
  then show ?thesis by (auto simp add: digit_def)
qed

lemma digit_not_minus: "d < 10 \<Longrightarrow> digit d \<noteq> CHR ''-''"
proof -
  assume "d < 10"
  then have "d \<in> {0, 1, 2, 3, 4, 5, 6, 7, 8, 9}" by auto
  then show ?thesis by (auto simp add: digit_def)
qed

lemma decimalValue_snoc: "decimalValue (s @ [c]) = 10 * decimalValue s + (of_char c - 48)"
  by (simp add: decimalValue_def)

lemma decimalValue_formatBits: "decimalValue (formatBits n) = n"
proof (induction n rule: formatBits.induct)
  case (1 n)
  show ?case
  proof (cases "n < 10")
    case True
    then show ?thesis by (simp add: formatBits_small decimalValue_def digit_value)
  next
    case False
    then have "decimalValue (formatBits n) = 10 * (n div 10) + n mod 10"
      using 1 by (simp add: formatBits_large decimalValue_snoc digit_value)
    then show ?thesis by simp
  qed
qed

lemma formatBits_nonempty: "formatBits n \<noteq> []"
  by (cases "n < 10") (simp_all add: formatBits_small formatBits_large)

lemma hd_formatBits: "hd (formatBits n) \<noteq> CHR ''-''"
proof (induction n rule: formatBits.induct)
  case (1 n)
  show ?case
  proof (cases "n < 10")
    case True
    then show ?thesis by (simp add: formatBits_small digit_not_minus)
  next
    case False
    then show ?thesis using 1 formatBits_nonempty [of "n div 10"]
      by (simp add: formatBits_large)
  qed
qed

lemma parseInt_FormatInt: "parseInt (FormatInt i) = i"
proof (cases "i < 0")
  case True
  then show ?thesis by (simp add: parseInt_def FormatInt_def decimalValue_formatBits)
next
  case False
  obtain c cs where f: "formatBits (nat i) = c # cs"
    using formatBits_nonempty [of "nat i"] by (cases "formatBits (nat i)") auto
  have "c \<noteq> CHR ''-''" using hd_formatBits [of "nat i"] f by simp
  then show ?thesis
    using False f decimalValue_formatBits [of "nat i"]
    by (simp add: parseInt_def FormatInt_def)
qed

section \<open>The response extractor: properties\<close>

text \<open>
  The loop handles the declarations one after the other, in the order of the list: what
  is proved of the body of the loop (\<open>attachVariable\<close>) from any store and any records
  holds at every position of the list.
\<close>

lemma attachLoop_append:
  "attachLoop env response (vars @ [v]) acc =
     attachVariable env response v (attachLoop env response vars acc)"
  by (induction vars arbitrary: acc) simp_all

lemma attachVariablesToContext_single:
  "attachVariablesToContext env response [v] w =
     (snd (attachVariable env response v (w, [])), fst (attachVariable env response v (w, [])))"
  by (simp add: attachVariablesToContext_def split: prod.splits)

lemma store_Add: "store (Add name v w) name = Some v"
  by (simp add: Add_def)

lemma exportValue_length:
  "length (snd (exportValue env v k (w, result))) = Suc (length result)"
  by (cases k) (simp_all add: Let_def)

lemma query_failure_length:
  assumes "Name v \<noteq> []" and "Source v = ResponseJson"
    and "Query env (Body response) (JsonConvertKeyName env (Property v)) = (k, Some e)"
  shows "length (snd (attachVariable env response v (w, result))) = length result + 2"
  using assms by (simp add: attachVariable_def exportValue_length)

lemma unsupported_leaf_one_record:
  assumes "Name v \<noteq> []" and "Source v = ResponseJson"
    and "Query env (Body response) (JsonConvertKeyName env (Property v)) = (k, None)"
    and "k = JNil \<or> k = JSlice xs \<or> k = JMap kvs"
  shows "attachVariable env response v (w, result) =
           (w, result @ [\<lparr>Key = Name v, NewValue = [],
              Err = Some (Error (''type '' @ TypeOf k @ '' not valid type to export as a variable'')),
              Type = Created\<rparr>])"
  using assms by (auto simp add: attachVariable_def)

lemma supported_leaf_stored:
  assumes "Name v \<noteq> []" and "Source v = ResponseJson"
    and "Query env (Body response) (JsonConvertKeyName env (Property v)) = (k, None)"
  shows "k = JString s \<Longrightarrow> attachVariable env response v (w, result) =
           (Add (Name v) s w, result @ [\<lparr>Key = Name v, NewValue = s, Err = None, Type = Created\<rparr>])"
    and "k = JBool b \<Longrightarrow> attachVariable env response v (w, result) =
           (Add (Name v) (if b then ''true'' else ''false'') w,
            result @ [\<lparr>Key = Name v, NewValue = (if b then ''true'' else ''false''), Err = None, Type = Created\<rparr>])"
    and "k = JFloat64 x \<Longrightarrow> attachVariable env response v (w, result) =
           (Add (Name v) (FormatG env x) w,
            result @ [\<lparr>Key = Name v, NewValue = FormatG env x, Err = None, Type = Created\<rparr>])"
  using assms by (auto simp add: attachVariable_def FormatBool_def Let_def)

text \<open>What the body of the loop does for a declaration of the elapsed time or of a header.\<close>

lemma attachVariable_ResponseTime:
  assumes "Name v \<noteq> []" and "Source v = ResponseTime"
    and "\<bar>TimeElapsed response\<bar> \<le> maxDuration - Millisecond"
  shows "attachVariable env response v (w, result) =
           (Add (Name v) (FormatInt (roundToMillisecond (TimeElapsed response))) w,
            result @ [createdRecord (Name v)
                        (FormatInt (roundToMillisecond (TimeElapsed response)))])"
  using assms by (simp add: attachVariable_def Round_Millisecond Let_def)

lemma attachVariable_ResponseHeader_present:
  assumes "Name v \<noteq> []" and "Source v = ResponseHeader"
    and "Header response (Property v) = Some (h # hs)"
  shows "attachVariable env response v (w, result) =
           (Add (Name v) h w, result @ [createdRecord (Name v) h])"
  using assms by (simp add: attachVariable_def)

lemma attachVariable_ResponseHeader_absent:
  assumes "Name v \<noteq> []" and "Source v = ResponseHeader"
    and "Header response (Property v) = None"
  shows "attachVariable env response v (w, result) = (w, result)"
  using assms by (simp add: attachVariable_def)

text \<open>
  Claim C1. When the query of a \<open>ResponseJson\<close> declaration fails (\<^verbatim>\<open>jsonq\<close> then
  returns \<^verbatim>\<open>nil\<close> and an error), the loop appends the record of the query error and,
  having no \<^verbatim>\<open>continue\<close>, goes on into the type switch, whose default branch appends
  a second record for the same declaration: two records, not one. Nothing is stored.
\<close>

theorem query_failure_two_records:
  assumes "Name v \<noteq> []" and "Source v = ResponseJson"
    and "Query env (Body response) (JsonConvertKeyName env (Property v)) = (JNil, Some e)"
  shows "attachVariable env response v (w, result) =
           (w, result @
             [\<lparr>Key = Name v, NewValue = [], Err = Some e, Type = Created\<rparr>,
              \<lparr>Key = Name v, NewValue = [],
               Err = Some (Error ''type %!s(<nil>) not valid type to export as a variable''),
               Type = Created\<rparr>])"
  using assms by (simp add: attachVariable_def)

text \<open>A declaration of the field \<^verbatim>\<open>a\<close> on the body \<^verbatim>\<open>{}\<close>.\<close>

theorem query_failure_two_records_witness:
  "length (snd (attachVariable exampleEnv
       \<lparr>StatusCode = 200, Header = Map.empty, Body = JMap [], TimeElapsed = 0\<rparr>
       \<lparr>Name = ''x'', Source = ResponseJson, Property = ''a''\<rparr>
       (\<lparr>store = Map.empty, trace = []\<rparr>, []))) = 2"
proof -
  let ?r = "\<lparr>StatusCode = 200, Header = Map.empty, Body = JMap [], TimeElapsed = 0\<rparr>"
  let ?v = "\<lparr>Name = ''x'', Source = ResponseJson, Property = ''a''\<rparr>"
  let ?w = "\<lparr>store = Map.empty, trace = []\<rparr> :: string World"
  have n: "Name ?v \<noteq> []" and s: "Source ?v = ResponseJson" by simp_all
  have q: "Query exampleEnv (Body ?r) (JsonConvertKeyName exampleEnv (Property ?v))
             = (JNil, Some (Error ''Object does not contain field''))"
    by (simp add: exampleEnv_def)
  show ?thesis
    using query_failure_two_records [OF n s q, of ?w "[]"] by simp
qed

section \<open>The calls an extraction and an assertion make\<close>

lemma assertLoop_eq:
  "assertLoop env response assertions (w, result) =
     (w\<lparr>trace := trace w @ map EvAssert assertions\<rparr>,
      result @ map (\<lambda>a. Assert env a response) assertions)"
  by (induction assertions arbitrary: w result) (simp_all add: Let_def)

lemma assertResponse_eq:
  "assertResponse env response assertions w =
     (map (\<lambda>a. Assert env a response) assertions,
      w\<lparr>trace := trace w @ map EvAssert assertions\<rparr>)"
  by (simp add: assertResponse_def assertLoop_eq)

lemma exportValue_trace:
  "\<exists>adds. trace (fst (exportValue env v k (w, result))) = trace w @ adds \<and> list_all isAdd adds"
  by (cases k) (simp_all add: Let_def Add_def)

lemma attachVariable_trace:
  "\<exists>adds. trace (fst (attachVariable env response v (w, result))) = trace w @ adds
           \<and> list_all isAdd adds"
proof (cases "Name v = []")
  case True
  then show ?thesis by (simp add: attachVariable_def)
next
  case False
  show ?thesis
  proof (cases "Source v")
    case ResponseTime
    with False show ?thesis by (simp add: attachVariable_def Let_def Add_def)
  next
    case ResponseStatus
    with False show ?thesis by (simp add: attachVariable_def Let_def Add_def)
  next
    case ResponseHeader
    with False show ?thesis
      by (auto simp add: attachVariable_def Add_def split: option.splits list.splits)
  next
    case ResponseJson
    obtain k e where q: "Query env (Body response) (JsonConvertKeyName env (Property v)) = (k, e)"
      by (cases "Query env (Body response) (JsonConvertKeyName env (Property v))")
    show ?thesis
      using False ResponseJson q
        exportValue_trace [of env v k w "case e of
           Some e' \<Rightarrow> result @ [\<lparr>Key = Name v, NewValue = [], Err = Some e', Type = Created\<rparr>]
         | None \<Rightarrow> result"]
      by (simp add: attachVariable_def Let_def)
  qed
qed

lemma attachLoop_trace:
  "\<exists>adds. trace (fst (attachLoop env response vars (w, result))) = trace w @ adds
           \<and> list_all isAdd adds"
proof (induction vars arbitrary: w result)
  case Nil
  then show ?case by simp
next
  case (Cons v vars)
  obtain w1 r1 where s: "attachVariable env response v (w, result) = (w1, r1)"
    by (cases "attachVariable env response v (w, result)")
  from attachVariable_trace [of env response v w result] s
  obtain a1 where a1: "trace w1 = trace w @ a1" "list_all isAdd a1" by auto
  from Cons.IH [of w1 r1]
  obtain a2 where a2: "trace (fst (attachLoop env response vars (w1, r1))) = trace w1 @ a2"
    "list_all isAdd a2" by auto
  show ?case using s a1 a2 by (intro exI [of _ "a1 @ a2"]) simp
qed


section \<open>The request builder: properties\<close>

lemma patch_eq:
  "patch env ctx v name result =
     (Patch env ctx v,
      result @ (if Patch env ctx v \<noteq> v then [usedRecord name (Patch env ctx v)] else []))"
  by (simp add: patch_def Let_def)

lemma patchEach_eq:
  assumes "distinct keys" and "set keys \<subseteq> dom m"
  shows "patchEach env ctx label keys (m, result) =
     ((\<lambda>key. if key \<in> set keys then map_option (Patch env ctx) (m key) else m key),
      result @ map (\<lambda>key. usedRecord (label key) (Patch env ctx (the (m key))))
                 (filter (\<lambda>key. Patch env ctx (the (m key)) \<noteq> the (m key)) keys))"
  using assms
proof (induction keys arbitrary: m result)
  case Nil
  then show ?case by simp
next
  case (Cons key keys)
  from Cons.prems obtain v where v: "m key = Some v" by auto
  let ?m = "m(key \<mapsto> Patch env ctx v)"
  have d: "distinct keys" and s: "set keys \<subseteq> dom ?m" and n: "key \<notin> set keys"
    using Cons.prems by auto
  have same: "\<And>k. k \<in> set keys \<Longrightarrow> ?m k = m k" using n by auto
  have f: "filter (\<lambda>k. Patch env ctx (the (?m k)) \<noteq> the (?m k)) keys
         = filter (\<lambda>k. Patch env ctx (the (m k)) \<noteq> the (m k)) keys"
    by (rule filter_cong [OF refl]) (simp only: same)
  have g: "map (\<lambda>k. usedRecord (label k) (Patch env ctx (the (?m k))))
             (filter (\<lambda>k. Patch env ctx (the (m k)) \<noteq> the (m k)) keys)
         = map (\<lambda>k. usedRecord (label k) (Patch env ctx (the (m k))))
             (filter (\<lambda>k. Patch env ctx (the (m k)) \<noteq> the (m k)) keys)"
    by (rule map_cong [OF refl]) (simp only: same set_filter mem_Collect_eq)
  have h: "(\<lambda>k. if k \<in> set keys then map_option (Patch env ctx) (?m k) else ?m k)
         = (\<lambda>k. if k \<in> set (key # keys) then map_option (Patch env ctx) (m k) else m k)"
    using v n by (auto simp add: fun_eq_iff)
  show ?case
    using Cons.IH [OF d s] v
    by (simp add: patch_eq f g h del: fun_upd_apply)
qed

lemma length_filter_card:
  assumes "distinct keys" and "set keys = dom m"
  shows "length (filter P keys) = card {key \<in> dom m. P key}"
proof -
  have "distinct (filter P keys)" using assms(1) by simp
  then have "card (set (filter P keys)) = length (filter P keys)" by (rule distinct_card)
  then have "length (filter P keys) = card (set (filter P keys))" by simp
  also have "set (filter P keys) = {key \<in> dom m. P key}"
    using assms(2) by auto
  finally show ?thesis .
qed

lemma convert_ok:
  assumes "ExtractUrl env step = Inr (baseUrl, queryParams)"
    and "distinct (Range env queryParams)" and "set (Range env queryParams) = dom queryParams"
    and "distinct (Range env (mergeHeaders env ctx step))"
    and "set (Range env (mergeHeaders env ctx step)) = dom (mergeHeaders env ctx step)"
  shows "convertAndPatchToHttpRequest env ctx step =
     (\<lparr>req_Method = Method step,
       req_BaseURL = Patch env ctx baseUrl,
       req_Headers = map_option (Patch env ctx) \<circ> mergeHeaders env ctx step,
       req_QueryParams = map_option (Patch env ctx) \<circ> queryParams,
       req_Body = Patch env ctx (StepBody step)\<rparr>,
      (if Patch env ctx (StepBody step) \<noteq> StepBody step
       then [usedRecord ''body'' (Patch env ctx (StepBody step))] else [])
      @ (if Patch env ctx baseUrl \<noteq> baseUrl
         then [usedRecord ''URL'' (Patch env ctx baseUrl)] else [])
      @ map (\<lambda>key. usedRecord (''params['' @ key @ '']'') (Patch env ctx (the (queryParams key))))
          (filter (\<lambda>key. Patch env ctx (the (queryParams key)) \<noteq> the (queryParams key))
             (Range env queryParams))
      @ map (\<lambda>key. usedRecord (''headers.'' @ key)
                     (Patch env ctx (the (mergeHeaders env ctx step key))))
          (filter (\<lambda>key. Patch env ctx (the (mergeHeaders env ctx step key))
                           \<noteq> the (mergeHeaders env ctx step key))
             (Range env (mergeHeaders env ctx step))),
      None)"
proof -
  have q: "(\<lambda>key. if key \<in> dom queryParams
                  then map_option (Patch env ctx) (queryParams key) else queryParams key)
           = map_option (Patch env ctx) \<circ> queryParams"
    by (auto simp add: fun_eq_iff domIff)
  have h: "(\<lambda>key. if key \<in> dom (mergeHeaders env ctx step)
                  then map_option (Patch env ctx) (mergeHeaders env ctx step key)
                  else mergeHeaders env ctx step key)
           = map_option (Patch env ctx) \<circ> mergeHeaders env ctx step"
    by (auto simp add: fun_eq_iff domIff)
  show ?thesis
    using assms
    by (simp add: convertAndPatchToHttpRequest_def Let_def patch_eq patchEach_eq q h)
qed

lemma request_built:
  assumes "convertAndPatchToHttpRequest env (store w) step = (req, variables, None)"
  shows "request env step w =
     (case Send env req of
        Inl err \<Rightarrow>
          (ResultStep0\<lparr>res_StepType := RequestStep, res_Request := req,
             VariableApplied := variables, StepTime := Sub (NowEnd env) (NowStart env)\<rparr>,
           Some err, w\<lparr>trace := trace w @ [EvSend req]\<rparr>)
      | Inr res \<Rightarrow>
          (case NewResponse env res (Sub (NowEnd env) (NowStart env)) of
             Inl err \<Rightarrow>
               (ResultStep0\<lparr>res_StepType := RequestStep, res_Request := req,
                  VariableApplied := variables, StepTime := Sub (NowEnd env) (NowStart env)\<rparr>,
                Some err, w\<lparr>trace := trace w @ [EvSend req]\<rparr>)
           | Inr response \<Rightarrow>
               (ResultStep0\<lparr>res_StepType := RequestStep, res_Request := req,
                  VariableApplied := variables, StepTime := Sub (NowEnd env) (NowStart env),
                  res_Response := response,
                  Assertion := map (\<lambda>a. Assert env a response) (Assertions step),
                  VariableCreated :=
                    fst (attachVariablesToContext env response (Variables step)
                          (w\<lparr>trace := trace w @ [EvSend req] @ map EvAssert (Assertions step)\<rparr>))\<rparr>,
                None,
                snd (attachVariablesToContext env response (Variables step)
                      (w\<lparr>trace := trace w @ [EvSend req] @ map EvAssert (Assertions step)\<rparr>)))))"
  using assms
  by (simp add: request_def Let_def assertResponse_eq split: sum.splits prod.splits)

lemma request_not_built:
  assumes "convertAndPatchToHttpRequest env (store w) step = (req, variables, Some e)"
  shows "request env step w =
     (ResultStep0, Some (Error ''impossible to convert the request''), w)"
  using assms by (simp add: request_def)

lemma convert_failed:
  assumes "ExtractUrl env step = Inl e"
  shows "convertAndPatchToHttpRequest env ctx step = (Request0, [], Some e)"
  using assms by (simp add: convertAndPatchToHttpRequest_def)

lemma Run_built:
  assumes "StepType step = RequestStep"
    and "convertAndPatchToHttpRequest env (store w) step = (req, variables, None)"
  shows "res_Request (fst (Run env step w)) = req"
    and "VariableApplied (fst (Run env step w)) = variables"
  using assms(1) by (simp_all add: Run_def request_built [OF assms(2)] split: sum.splits)

section \<open>The examples, evaluated\<close>

lemma example_Range:
  "Range exampleEnv [''id'' \<mapsto> ''token''] = [''id'']"
  "Range exampleEnv [''Accept'' \<mapsto> ''json''] = [''Accept'']"
  by (simp_all add: exampleEnv_def)

lemma example_headers:
  "mergeHeaders exampleEnv ctx exampleStep = [''Accept'' \<mapsto> ''json'']"
  "mergeHeaders exampleEnv ctx downStep = [''Accept'' \<mapsto> ''json'']"
  by (auto simp add: exampleEnv_def mergeHeaders_def flattenHeaders_def exampleStep_def downStep_def fun_eq_iff)

lemma example_ExtractUrl:
  "ExtractUrl exampleEnv exampleStep = Inr (''http://api'', [''id'' \<mapsto> ''token''])"
  "ExtractUrl exampleEnv downStep = Inr (''http://down'', [''id'' \<mapsto> ''token''])"
  "ExtractUrl exampleEnv badStep = Inl (Error ''cannot parse the url'')"
  by (simp_all add: exampleEnv_def exampleStep_def downStep_def badStep_def)

lemma example_Patch:
  "Patch exampleEnv (store exampleWorld) ''token'' = ''abc''"
  "Patch exampleEnv (store exampleWorld) ''json'' = ''json''"
  "Patch exampleEnv (store exampleWorld) ''http://api'' = ''http://api''"
  "Patch exampleEnv (store exampleWorld) ''http://down'' = ''http://down''"
  by (simp_all add: exampleEnv_def exampleWorld_def)

lemma example_fields:
  "StepBody exampleStep = ''token''" "StepBody downStep = ''token''"
  "Method exampleStep = ''GET''" "Method downStep = ''GET''"
  "StepType exampleStep = RequestStep" "StepType downStep = RequestStep"
  "StepType badStep = RequestStep"
  by (simp_all add: exampleStep_def downStep_def badStep_def)

lemma example_convert:
  "convertAndPatchToHttpRequest exampleEnv (store exampleWorld) exampleStep =
     (\<lparr>req_Method = ''GET'', req_BaseURL = ''http://api'',
       req_Headers = [''Accept'' \<mapsto> ''json''],
       req_QueryParams = [''id'' \<mapsto> ''abc''],
       req_Body = ''abc''\<rparr>,
      [usedRecord ''body'' ''abc'', usedRecord ''params[id]'' ''abc''], None)"
  using convert_ok [OF example_ExtractUrl(1), of "store exampleWorld"]
  by (simp add: example_Range example_headers example_Patch example_fields)

lemma example_convert_down:
  "convertAndPatchToHttpRequest exampleEnv (store exampleWorld) downStep =
     (\<lparr>req_Method = ''GET'', req_BaseURL = ''http://down'',
       req_Headers = [''Accept'' \<mapsto> ''json''],
       req_QueryParams = [''id'' \<mapsto> ''abc''],
       req_Body = ''abc''\<rparr>,
      [usedRecord ''body'' ''abc'', usedRecord ''params[id]'' ''abc''], None)"
  using convert_ok [OF example_ExtractUrl(2), of "store exampleWorld"]
  by (simp add: example_Range example_headers example_Patch example_fields)

lemma example_Send:
  "Send exampleEnv \<lparr>req_Method = ''GET'', req_BaseURL = ''http://down'',
       req_Headers = [''Accept'' \<mapsto> ''json''], req_QueryParams = [''id'' \<mapsto> ''abc''],
       req_Body = ''abc''\<rparr> = Inl (Error ''connection refused'')"
  "Send exampleEnv \<lparr>req_Method = ''GET'', req_BaseURL = ''http://api'',
       req_Headers = [''Accept'' \<mapsto> ''json''], req_QueryParams = [''id'' \<mapsto> ''abc''],
       req_Body = ''abc''\<rparr>
     = Inr \<lparr>raw_StatusCode = 200, raw_Body = [], raw_Headers = [''X-Req-Id'' \<mapsto> [''abc'']]\<rparr>"
  by (simp_all add: exampleEnv_def)

lemma example_NewResponse:
  "NewResponse exampleEnv
     \<lparr>raw_StatusCode = 200, raw_Body = [], raw_Headers = [''X-Req-Id'' \<mapsto> [''abc'']]\<rparr>
     (Sub (NowEnd exampleEnv) (NowStart exampleEnv))
   = Inr \<lparr>StatusCode = 200, Header = [''X-Req-Id'' \<mapsto> [''abc'']],
          Body = JMap [(''user'', JMap [])], TimeElapsed = 123600000\<rparr>"
  by (simp add: exampleEnv_def Sub_def minDuration_def maxDuration_def)

lemma override_fields:
  "StepType patchStep = RequestStep" "StepBody patchStep = ''token''" "Method patchStep = ''GET''"
  "ExtractUrl overrideEnv patchStep = Inr (''http://api'', [''id'' \<mapsto> ''token''])"
  "ConfigHeaders overrideEnv ''Authorization'' = Some ''token''"
  by (simp_all add: patchStep_def exampleStep_def overrideEnv_def exampleEnv_def)

lemma override_Patch:
  "Patch overrideEnv (store exampleWorld) ''token'' = ''abc''"
  "Patch overrideEnv (store exampleWorld) ''abc'' = ''abc''"
  "Patch overrideEnv (store exampleWorld) ''http://api'' = ''http://api''"
  by (simp_all add: overrideEnv_def exampleEnv_def exampleWorld_def)

lemma override_headers:
  "(\<lambda>key. case ConfigHeaders overrideEnv key of
            Some v \<Rightarrow> Some (Patch overrideEnv (store exampleWorld) v)
          | None \<Rightarrow> (case Headers patchStep key of Some (v # vs) \<Rightarrow> Some v | _ \<Rightarrow> None))
   = [''Accept'' \<mapsto> ''token'', ''Authorization'' \<mapsto> ''abc'']"
  by (auto simp add: fun_eq_iff overrideEnv_def exampleEnv_def exampleWorld_def patchStep_def
        exampleStep_def)

lemma override_Range:
  "Range overrideEnv [''id'' \<mapsto> ''token''] = [''id'']"
  "Range overrideEnv [''Accept'' \<mapsto> ''token'', ''Authorization'' \<mapsto> ''abc'']
     = [''Accept'', ''Authorization'']"
  by (simp_all add: overrideEnv_def exampleEnv_def)

lemma override_sent:
  "map_option (Patch overrideEnv (store exampleWorld))
     \<circ> [''Accept'' \<mapsto> ''token'', ''Authorization'' \<mapsto> ''abc'']
   = [''Accept'' \<mapsto> ''abc'', ''Authorization'' \<mapsto> ''abc'']"
  "map_option (Patch overrideEnv (store exampleWorld)) \<circ> [''id'' \<mapsto> ''token'']
   = [''id'' \<mapsto> ''abc'']"
  by (auto simp add: fun_eq_iff override_Patch)

lemma override_convert:
  "convertAndPatchToHttpRequest overrideEnv (store exampleWorld) patchStep =
     (\<lparr>req_Method = ''GET'', req_BaseURL = ''http://api'',
       req_Headers = [''Accept'' \<mapsto> ''abc'', ''Authorization'' \<mapsto> ''abc''],
       req_QueryParams = [''id'' \<mapsto> ''abc''], req_Body = ''abc''\<rparr>,
      [usedRecord ''body'' ''abc'', usedRecord ''params[id]'' ''abc'',
       usedRecord ''headers.Accept'' ''abc''], None)"
proof -
  have m: "mergeHeaders overrideEnv (store exampleWorld) patchStep
           = [''Accept'' \<mapsto> ''token'', ''Authorization'' \<mapsto> ''abc'']"
    by (auto simp add: fun_eq_iff mergeHeaders_def flattenHeaders_def overrideEnv_def
          exampleEnv_def exampleWorld_def patchStep_def exampleStep_def)
  have d1: "distinct (Range overrideEnv [''id'' \<mapsto> ''token''])"
    and s1: "set (Range overrideEnv [''id'' \<mapsto> ''token'']) = dom [''id'' \<mapsto> ''token'']"
    and d2: "distinct (Range overrideEnv (mergeHeaders overrideEnv (store exampleWorld) patchStep))"
    and s2: "set (Range overrideEnv (mergeHeaders overrideEnv (store exampleWorld) patchStep))
              = dom (mergeHeaders overrideEnv (store exampleWorld) patchStep)"
    by (auto simp add: m override_Range)
  show ?thesis
    using convert_ok [OF override_fields(4) d1 s1 d2 s2]
    by (simp add: m override_Range override_Patch override_fields override_sent)
qed

section \<open>The step engine: properties\<close>

text \<open>
  Claim C3. When the request of a Request step was built and \<^verbatim>\<open>Send\<close> returns an
  error, \<^verbatim>\<open>Run\<close> returns a result that holds the request attempted, no response
  (the zero value), no assertion outcome and no created variable, together with the error
  of the transport; the variable store is unchanged and no \<^verbatim>\<open>Add\<close> was called.
\<close>

theorem transport_failure_partial_result:
  assumes "StepType step = RequestStep"
    and "convertAndPatchToHttpRequest env (store w) step = (req, variables, None)"
    and "Send env req = Inl e"
  shows "res_Request (fst (Run env step w)) = req
       \<and> res_Response (fst (Run env step w)) = Response0
       \<and> Assertion (fst (Run env step w)) = []
       \<and> VariableCreated (fst (Run env step w)) = []
       \<and> fst (snd (Run env step w)) = Some e
       \<and> store (snd (snd (Run env step w))) = store w
       \<and> list_all (\<lambda>ev. \<not> isAdd ev) (drop (length (trace w)) (trace (snd (snd (Run env step w)))))"
  using assms by (simp add: Run_def request_built ResultStep0_def)

theorem transport_failure_partial_result_witness:
  "res_Request (fst (Run exampleEnv downStep exampleWorld)) =
      \<lparr>req_Method = ''GET'', req_BaseURL = ''http://down'',
       req_Headers = [''Accept'' \<mapsto> ''json''], req_QueryParams = [''id'' \<mapsto> ''abc''],
       req_Body = ''abc''\<rparr>
   \<and> res_Response (fst (Run exampleEnv downStep exampleWorld)) = Response0
   \<and> Assertion (fst (Run exampleEnv downStep exampleWorld)) = []
   \<and> VariableCreated (fst (Run exampleEnv downStep exampleWorld)) = []
   \<and> fst (snd (Run exampleEnv downStep exampleWorld)) = Some (Error ''connection refused'')
   \<and> store (snd (snd (Run exampleEnv downStep exampleWorld))) = store exampleWorld"
  using transport_failure_partial_result
    [OF example_fields(6) example_convert_down example_Send(1)]
  by simp

text \<open>
  Claim C10. When \<^verbatim>\<open>Send\<close> fails, the result still holds the time elapsed between
  the two readings of the clock around the call (it is recorded before the error is
  checked), while the response, the assertions and the created variables stay empty.
\<close>

theorem transport_failure_step_time:
  assumes "StepType step = RequestStep"
    and "convertAndPatchToHttpRequest env (store w) step = (req, variables, None)"
    and "Send env req = Inl e"
  shows "StepTime (fst (Run env step w)) = Sub (NowEnd env) (NowStart env)
       \<and> res_Response (fst (Run env step w)) = Response0
       \<and> Assertion (fst (Run env step w)) = []
       \<and> VariableCreated (fst (Run env step w)) = []"
  using assms by (simp add: Run_def request_built ResultStep0_def)

theorem transport_failure_step_time_witness:
  "StepTime (fst (Run exampleEnv downStep exampleWorld)) = 123600000
   \<and> res_Response (fst (Run exampleEnv downStep exampleWorld)) = Response0"
  using transport_failure_step_time
    [OF example_fields(6) example_convert_down example_Send(1)]
  by (simp add: exampleEnv_def Sub_def minDuration_def maxDuration_def)

text \<open>
  Claim C6. When the URL of a Request step cannot be decomposed, \<^verbatim>\<open>Run\<close> returns the
  error of a failed build at once: the calls made to the collaborators are those made
  before (no \<^verbatim>\<open>Send\<close>, no \<^verbatim>\<open>Assert\<close>, no \<^verbatim>\<open>Add\<close>), the store is unchanged,
  and the result holds no assertion outcome and no created variable.
\<close>

theorem build_failure_no_calls:
  assumes "StepType step = RequestStep"
    and "ExtractUrl env step = Inl e"
  shows "Run env step w = (ResultStep0, Some (Error ''impossible to convert the request''), w)
       \<and> trace (snd (snd (Run env step w))) = trace w
       \<and> store (snd (snd (Run env step w))) = store w
       \<and> Assertion (fst (Run env step w)) = []
       \<and> VariableCreated (fst (Run env step w)) = []"
  using assms convert_failed [of env step e "store w"]
  by (simp add: Run_def request_not_built ResultStep0_def)

theorem build_failure_no_calls_witness:
  "Run exampleEnv badStep exampleWorld =
     (ResultStep0, Some (Error ''impossible to convert the request''), exampleWorld)
   \<and> trace (snd (snd (Run exampleEnv badStep exampleWorld))) = []"
  using build_failure_no_calls [OF example_fields(7) example_ExtractUrl(3), of exampleWorld]
  by (simp add: exampleWorld_def)



text \<open>
  Claim C5, as the code has it. The result of \<^verbatim>\<open>Run\<close> for every step, by kind:
  a Pause step returns its kind and the elapsed time; a Request step whose request was
  built returns its kind, the request attempted, the patches applied and the elapsed time,
  with the response when \<^verbatim>\<open>Send\<close> succeeded and \<^verbatim>\<open>model.NewResponse\<close> parsed it,
  and with no response and the error when either failed; a Request step whose build fails
  returns the empty result (no kind, no request, no patch) with the error
  \<^verbatim>\<open>impossible to convert the request\<close>; a step of any other kind returns the empty
  result with the error of an invalid kind.
\<close>

theorem result_structure_all:
  "(case StepType step of
      Pause \<Rightarrow>
        Run env step w =
          (ResultStep0\<lparr>res_StepType := Pause, StepTime := Sub (NowEnd env) (NowStart env)\<rparr>,
           None, w)
    | OtherStepType s \<Rightarrow>
        Run env step w = (ResultStep0, Some (Error (s @ '' is an invalid step_type'')), w)
    | RequestStep \<Rightarrow>
        (case convertAndPatchToHttpRequest env (store w) step of
           (req, variables, Some e) \<Rightarrow>
             Run env step w =
               (ResultStep0, Some (Error ''impossible to convert the request''), w)
         | (req, variables, None) \<Rightarrow>
             res_StepType (fst (Run env step w)) = RequestStep
             \<and> res_Request (fst (Run env step w)) = req
             \<and> VariableApplied (fst (Run env step w)) = variables
             \<and> StepTime (fst (Run env step w)) = Sub (NowEnd env) (NowStart env)
             \<and> (case Send env req of
                  Inl e \<Rightarrow>
                    res_Response (fst (Run env step w)) = Response0
                    \<and> fst (snd (Run env step w)) = Some e
                | Inr res \<Rightarrow>
                    (case NewResponse env res (Sub (NowEnd env) (NowStart env)) of
                       Inl e \<Rightarrow>
                         res_Response (fst (Run env step w)) = Response0
                         \<and> fst (snd (Run env step w)) = Some e
                     | Inr response \<Rightarrow>
                         res_Response (fst (Run env step w)) = response
                         \<and> fst (snd (Run env step w)) = None))))"
proof (cases "StepType step")
  case Pause
  then show ?thesis by (simp add: Run_def pause_def)
next
  case (OtherStepType s)
  then show ?thesis by (simp add: Run_def)
next
  case RequestStep
  obtain req variables err where
    c: "convertAndPatchToHttpRequest env (store w) step = (req, variables, err)"
    by (cases "convertAndPatchToHttpRequest env (store w) step") auto
  show ?thesis
  proof (cases err)
    case None
    then show ?thesis
      using RequestStep c
      by (simp add: Run_def request_built ResultStep0_def split: sum.splits)
  next
    case (Some e)
    then show ?thesis
      using RequestStep c by (simp add: Run_def request_not_built)
  qed
qed

text \<open>
  A pause step, a request step whose send fails, and one that obtains a response.
\<close>

theorem result_structure_all_witness:
  "res_StepType (fst (Run exampleEnv pauseStep exampleWorld)) = Pause
   \<and> StepTime (fst (Run exampleEnv pauseStep exampleWorld)) = 123600000
   \<and> res_StepType (fst (Run exampleEnv downStep exampleWorld)) = RequestStep
   \<and> req_BaseURL (res_Request (fst (Run exampleEnv downStep exampleWorld))) = ''http://down''
   \<and> VariableApplied (fst (Run exampleEnv downStep exampleWorld)) =
       [usedRecord ''body'' ''abc'', usedRecord ''params[id]'' ''abc'']
   \<and> fst (snd (Run exampleEnv downStep exampleWorld)) = Some (Error ''connection refused'')
   \<and> StatusCode (res_Response (fst (Run exampleEnv exampleStep exampleWorld))) = 200
   \<and> fst (snd (Run exampleEnv exampleStep exampleWorld)) = None"
proof -
  have p: "StepType pauseStep = Pause" by (simp add: pauseStep_def)
  have t: "Sub (NowEnd exampleEnv) (NowStart exampleEnv) = 123600000"
    by (simp add: exampleEnv_def Sub_def minDuration_def maxDuration_def)
  show ?thesis
    using result_structure_all [where step = pauseStep and env = exampleEnv and w = exampleWorld]
      result_structure_all [where step = downStep and env = exampleEnv and w = exampleWorld]
      result_structure_all [where step = exampleStep and env = exampleEnv and w = exampleWorld]
      p t example_fields(5,6) example_convert example_convert_down example_Send
      example_NewResponse
    by (simp add: ResultStep0_def)
qed

lemma parseFail_convert:
  "convertAndPatchToHttpRequest parseFailEnv (store exampleWorld) exampleStep =
     (\<lparr>req_Method = ''GET'', req_BaseURL = ''http://api'',
       req_Headers = [''Accept'' \<mapsto> ''json''],
       req_QueryParams = [''id'' \<mapsto> ''abc''],
       req_Body = ''abc''\<rparr>,
      [usedRecord ''body'' ''abc'', usedRecord ''params[id]'' ''abc''], None)"
proof -
  have e: "ExtractUrl parseFailEnv exampleStep = Inr (''http://api'', [''id'' \<mapsto> ''token''])"
    by (simp add: parseFailEnv_def exampleEnv_def exampleStep_def)
  have h: "mergeHeaders parseFailEnv (store exampleWorld) exampleStep = [''Accept'' \<mapsto> ''json'']"
    by (auto simp add: parseFailEnv_def exampleEnv_def mergeHeaders_def flattenHeaders_def
          exampleStep_def fun_eq_iff)
  have r: "Range parseFailEnv [''id'' \<mapsto> ''token''] = [''id'']"
    "Range parseFailEnv [''Accept'' \<mapsto> ''json''] = [''Accept'']"
    by (simp_all add: parseFailEnv_def exampleEnv_def)
  have p: "Patch parseFailEnv (store exampleWorld) ''token'' = ''abc''"
    "Patch parseFailEnv (store exampleWorld) ''json'' = ''json''"
    "Patch parseFailEnv (store exampleWorld) ''http://api'' = ''http://api''"
    by (simp_all add: parseFailEnv_def exampleEnv_def exampleWorld_def)
  show ?thesis
    using convert_ok [OF e, of "store exampleWorld"]
    by (simp add: h r p example_fields)
qed

text \<open>
  Claim C5 as it is stated fails in two cases. The result of the step \<open>badStep\<close>, whose
  build fails, holds neither the kind of the step nor its method, and no request or patch.
  And when the transport returned a response that \<^verbatim>\<open>model.NewResponse\<close> cannot parse,
  the result holds no response.
\<close>

theorem result_structure_counterexample:
  "res_StepType (fst (Run exampleEnv badStep exampleWorld)) \<noteq> RequestStep
   \<and> req_Method (res_Request (fst (Run exampleEnv badStep exampleWorld))) \<noteq> Method badStep
   \<and> req_BaseURL (res_Request (fst (Run exampleEnv badStep exampleWorld))) = []
   \<and> VariableApplied (fst (Run exampleEnv badStep exampleWorld)) = []
   \<and> fst (snd (Run exampleEnv badStep exampleWorld))
       = Some (Error ''impossible to convert the request'')
   \<and> Send parseFailEnv (res_Request (fst (Run parseFailEnv exampleStep exampleWorld)))
       = Inr \<lparr>raw_StatusCode = 200, raw_Body = [], raw_Headers = [''X-Req-Id'' \<mapsto> [''abc'']]\<rparr>
   \<and> res_Response (fst (Run parseFailEnv exampleStep exampleWorld)) = Response0
   \<and> fst (snd (Run parseFailEnv exampleStep exampleWorld)) = Some (Error ''invalid character'')"
proof -
  have bad: "res_StepType (fst (Run exampleEnv badStep exampleWorld)) \<noteq> RequestStep
   \<and> req_Method (res_Request (fst (Run exampleEnv badStep exampleWorld))) \<noteq> Method badStep
   \<and> req_BaseURL (res_Request (fst (Run exampleEnv badStep exampleWorld))) = []
   \<and> VariableApplied (fst (Run exampleEnv badStep exampleWorld)) = []
   \<and> fst (snd (Run exampleEnv badStep exampleWorld))
       = Some (Error ''impossible to convert the request'')"
    by (simp add: Run_def request_def convertAndPatchToHttpRequest_def example_ExtractUrl
          example_fields ResultStep0_def Request0_def)
       (simp add: badStep_def exampleStep_def)
  have s: "Send parseFailEnv \<lparr>req_Method = ''GET'', req_BaseURL = ''http://api'',
       req_Headers = [''Accept'' \<mapsto> ''json''], req_QueryParams = [''id'' \<mapsto> ''abc''],
       req_Body = ''abc''\<rparr>
     = Inr \<lparr>raw_StatusCode = 200, raw_Body = [], raw_Headers = [''X-Req-Id'' \<mapsto> [''abc'']]\<rparr>"
    by (simp add: parseFailEnv_def exampleEnv_def)
  have n: "NewResponse parseFailEnv
       \<lparr>raw_StatusCode = 200, raw_Body = [], raw_Headers = [''X-Req-Id'' \<mapsto> [''abc'']]\<rparr>
       (Sub (NowEnd parseFailEnv) (NowStart parseFailEnv)) = Inl (Error ''invalid character'')"
    by (simp add: parseFailEnv_def)
  have parse: "Send parseFailEnv (res_Request (fst (Run parseFailEnv exampleStep exampleWorld)))
       = Inr \<lparr>raw_StatusCode = 200, raw_Body = [], raw_Headers = [''X-Req-Id'' \<mapsto> [''abc'']]\<rparr>
   \<and> res_Response (fst (Run parseFailEnv exampleStep exampleWorld)) = Response0
   \<and> fst (snd (Run parseFailEnv exampleStep exampleWorld)) = Some (Error ''invalid character'')"
    using s n by (simp add: Run_def example_fields request_built [OF parseFail_convert] ResultStep0_def)
  show ?thesis using bad parse by simp
qed

text \<open>
  Claim C4, as the code has it. For a Request step that builds, the records of patched
  fields are, in this order: one for the body and one for the base URL when
  \<^verbatim>\<open>patch\<close> changed them, one for every query parameter and one for every header of
  the merged map whose value returned by \<^verbatim>\<open>patch\<close> differs from the value given to
  it, each with the identifier of the field and the patched value; their number is the
  number of those fields. The value given to \<^verbatim>\<open>patch\<close> for a declared header is its
  first declared value; for a header of the configuration it is the configured value
  already patched when the headers were merged (line 226), so such a header has a record
  exactly when patching changes the resolved value once more. The request sent holds the
  patched fields. The keys of a map are visited once each, in any order.
\<close>

theorem patched_field_records_merged:
  assumes "StepType step = RequestStep"
    and "ExtractUrl env step = Inr (baseUrl, queryParams)"
    and "headers = (\<lambda>key. case ConfigHeaders env key of
                             Some v \<Rightarrow> Some (Patch env (store w) v)
                           | None \<Rightarrow> (case Headers step key of Some (v # vs) \<Rightarrow> Some v | _ \<Rightarrow> None))"
    and "distinct (Range env queryParams)" and "set (Range env queryParams) = dom queryParams"
    and "distinct (Range env headers)" and "set (Range env headers) = dom headers"
  shows "VariableApplied (fst (Run env step w)) =
      (if Patch env (store w) (StepBody step) \<noteq> StepBody step
       then [usedRecord ''body'' (Patch env (store w) (StepBody step))] else [])
      @ (if Patch env (store w) baseUrl \<noteq> baseUrl
         then [usedRecord ''URL'' (Patch env (store w) baseUrl)] else [])
      @ map (\<lambda>key. usedRecord (''params['' @ key @ '']'')
                     (Patch env (store w) (the (queryParams key))))
          (filter (\<lambda>key. Patch env (store w) (the (queryParams key)) \<noteq> the (queryParams key))
             (Range env queryParams))
      @ map (\<lambda>key. usedRecord (''headers.'' @ key) (Patch env (store w) (the (headers key))))
          (filter (\<lambda>key. Patch env (store w) (the (headers key)) \<noteq> the (headers key))
             (Range env headers))
    \<and> length (VariableApplied (fst (Run env step w))) =
        (if Patch env (store w) (StepBody step) \<noteq> StepBody step then 1 else 0)
        + (if Patch env (store w) baseUrl \<noteq> baseUrl then 1 else 0)
        + card {key \<in> dom queryParams.
                 Patch env (store w) (the (queryParams key)) \<noteq> the (queryParams key)}
        + card {key \<in> dom headers.
                 Patch env (store w) (the (headers key)) \<noteq> the (headers key)}
    \<and> res_Request (fst (Run env step w)) =
        \<lparr>req_Method = Method step,
         req_BaseURL = Patch env (store w) baseUrl,
         req_Headers = map_option (Patch env (store w)) \<circ> headers,
         req_QueryParams = map_option (Patch env (store w)) \<circ> queryParams,
         req_Body = Patch env (store w) (StepBody step)\<rparr>
    \<and> (\<forall>key v x. ConfigHeaders env key = Some v \<longrightarrow>
          (usedRecord (''headers.'' @ key) x \<in> set (VariableApplied (fst (Run env step w)))
           \<longleftrightarrow> x = Patch env (store w) (Patch env (store w) v)
               \<and> Patch env (store w) (Patch env (store w) v) \<noteq> Patch env (store w) v))"
proof -
  let ?P = "Patch env (store w)"
  let ?vars = "(if ?P (StepBody step) \<noteq> StepBody step
       then [usedRecord ''body'' (?P (StepBody step))] else [])
      @ (if ?P baseUrl \<noteq> baseUrl then [usedRecord ''URL'' (?P baseUrl)] else [])
      @ map (\<lambda>key. usedRecord (''params['' @ key @ '']'') (?P (the (queryParams key))))
          (filter (\<lambda>key. ?P (the (queryParams key)) \<noteq> the (queryParams key))
             (Range env queryParams))
      @ map (\<lambda>key. usedRecord (''headers.'' @ key) (?P (the (headers key))))
          (filter (\<lambda>key. ?P (the (headers key)) \<noteq> the (headers key)) (Range env headers))"
  have m: "mergeHeaders env (store w) step = headers"
    by (auto simp add: assms(3) mergeHeaders_def flattenHeaders_def fun_eq_iff split: option.splits)
  have c: "convertAndPatchToHttpRequest env (store w) step =
     (\<lparr>req_Method = Method step, req_BaseURL = ?P baseUrl,
       req_Headers = map_option ?P \<circ> headers,
       req_QueryParams = map_option ?P \<circ> queryParams,
       req_Body = ?P (StepBody step)\<rparr>, ?vars, None)"
    using convert_ok [of env step baseUrl queryParams "store w"] assms(2,4-7) by (simp add: m)
  have v: "VariableApplied (fst (Run env step w)) = ?vars"
    by (rule Run_built(2) [OF assms(1) c])
  have r: "res_Request (fst (Run env step w)) =
        \<lparr>req_Method = Method step, req_BaseURL = ?P baseUrl,
         req_Headers = map_option ?P \<circ> headers,
         req_QueryParams = map_option ?P \<circ> queryParams,
         req_Body = ?P (StepBody step)\<rparr>"
    by (rule Run_built(1) [OF assms(1) c])
  have lq: "length (filter (\<lambda>key. ?P (the (queryParams key)) \<noteq> the (queryParams key))
                (Range env queryParams))
          = card {key \<in> dom queryParams. ?P (the (queryParams key)) \<noteq> the (queryParams key)}"
    using assms(4,5) by (rule length_filter_card)
  have lh: "length (filter (\<lambda>key. ?P (the (headers key)) \<noteq> the (headers key)) (Range env headers))
          = card {key \<in> dom headers. ?P (the (headers key)) \<noteq> the (headers key)}"
    using assms(6,7) by (rule length_filter_card)
  have l: "length (VariableApplied (fst (Run env step w))) =
        (if ?P (StepBody step) \<noteq> StepBody step then 1 else 0)
        + (if ?P baseUrl \<noteq> baseUrl then 1 else 0)
        + card {key \<in> dom queryParams. ?P (the (queryParams key)) \<noteq> the (queryParams key)}
        + card {key \<in> dom headers. ?P (the (headers key)) \<noteq> the (headers key)}"
    unfolding v using lq lh by simp
  have o: "usedRecord (''headers.'' @ key) x \<in> set (VariableApplied (fst (Run env step w)))
           \<longleftrightarrow> x = ?P (?P v) \<and> ?P (?P v) \<noteq> ?P v"
    if k: "ConfigHeaders env key = Some v" for key v x
  proof -
    have hk: "headers key = Some (?P v)" using k by (simp add: assms(3))
    then have d: "key \<in> set (Range env headers)" using assms(7) by auto
    have "usedRecord (''headers.'' @ key) x \<in> set (VariableApplied (fst (Run env step w)))
          \<longleftrightarrow> (\<exists>k \<in> set (Range env headers). ?P (the (headers k)) \<noteq> the (headers k)
                \<and> k = key \<and> x = ?P (the (headers k)))"
      unfolding v by (simp add: image_iff)
    then show ?thesis using hk d by auto
  qed
  from o have o': "\<forall>key v x. ConfigHeaders env key = Some v \<longrightarrow>
          (usedRecord (''headers.'' @ key) x \<in> set (VariableApplied (fst (Run env step w)))
           \<longleftrightarrow> x = ?P (?P v) \<and> ?P (?P v) \<noteq> ?P v)"
    by blast
  show ?thesis
    by (rule conjI [OF v conjI [OF l conjI [OF r o']]])
qed

text \<open>
  A step with a templated body, query parameter and declared header, and a header of the
  configuration: three records, and both headers sent.
\<close>

theorem patched_field_records_merged_witness:
  "VariableApplied (fst (Run overrideEnv patchStep exampleWorld)) =
       [usedRecord ''body'' ''abc'', usedRecord ''params[id]'' ''abc'',
        usedRecord ''headers.Accept'' ''abc'']
   \<and> length (VariableApplied (fst (Run overrideEnv patchStep exampleWorld))) = 3
   \<and> res_Request (fst (Run overrideEnv patchStep exampleWorld)) =
       \<lparr>req_Method = ''GET'', req_BaseURL = ''http://api'',
        req_Headers = [''Accept'' \<mapsto> ''abc'', ''Authorization'' \<mapsto> ''abc''],
        req_QueryParams = [''id'' \<mapsto> ''abc''], req_Body = ''abc''\<rparr>
   \<and> usedRecord ''headers.Authorization'' ''abc''
       \<notin> set (VariableApplied (fst (Run overrideEnv patchStep exampleWorld)))"
proof -
  have d1: "distinct (Range overrideEnv [''id'' \<mapsto> ''token''])"
    and s1: "set (Range overrideEnv [''id'' \<mapsto> ''token'']) = dom [''id'' \<mapsto> ''token'']"
    and d2: "distinct (Range overrideEnv [''Accept'' \<mapsto> ''token'', ''Authorization'' \<mapsto> ''abc''])"
    and s2: "set (Range overrideEnv [''Accept'' \<mapsto> ''token'', ''Authorization'' \<mapsto> ''abc''])
              = dom [''Accept'' \<mapsto> ''token'', ''Authorization'' \<mapsto> ''abc'']"
    by (auto simp add: override_Range)
  note t = patched_field_records_merged
      [OF override_fields(1) override_fields(4) override_headers [symmetric] d1 s1 d2 s2]
  have v: "VariableApplied (fst (Run overrideEnv patchStep exampleWorld)) =
       [usedRecord ''body'' ''abc'', usedRecord ''params[id]'' ''abc'',
        usedRecord ''headers.Accept'' ''abc'']"
    using t by (simp add: override_Range override_Patch override_fields)
  have r: "res_Request (fst (Run overrideEnv patchStep exampleWorld)) =
       \<lparr>req_Method = ''GET'', req_BaseURL = ''http://api'',
        req_Headers = [''Accept'' \<mapsto> ''abc'', ''Authorization'' \<mapsto> ''abc''],
        req_QueryParams = [''id'' \<mapsto> ''abc''], req_Body = ''abc''\<rparr>"
    using t by (simp only: override_sent override_Patch override_fields)
  show ?thesis using v r by simp
qed

text \<open>
  Claim C4 as it is stated fails for a header of the configuration: the configured value
  \<^verbatim>\<open>token\<close> is sent as \<^verbatim>\<open>abc\<close>, and no record names the header.
\<close>

theorem patched_field_records_counterexample:
  "ConfigHeaders overrideEnv ''Authorization'' = Some ''token''
   \<and> req_Headers (res_Request (fst (Run overrideEnv patchStep exampleWorld))) ''Authorization''
       = Some ''abc''
   \<and> map Key (VariableApplied (fst (Run overrideEnv patchStep exampleWorld)))
       = [''body'', ''params[id]'', ''headers.Accept'']"
  by (simp add: Run_def override_fields request_built [OF override_convert] split: sum.splits)

section \<open>The extraction of a step that obtained a response\<close>

text \<open>
  The records of a list of declarations are the records of its parts, one after the other;
  they do not depend on the store. A declaration whose name no later declaration has keeps
  the value it stored.
\<close>

lemma exportValue_acc:
  "exportValue env v k (w, result) =
     (fst (exportValue env v k (w, [])), result @ snd (exportValue env v k (w, [])))"
  by (cases k) (simp_all add: Let_def)

lemma exportValue_records:
  "snd (exportValue env v k (w, [])) = snd (exportValue env v k (w', []))"
  by (cases k) (simp_all add: Let_def)

lemma attachVariable_acc:
  "attachVariable env response v (w, result) =
     (fst (attachVariable env response v (w, [])),
      result @ snd (attachVariable env response v (w, [])))"
proof -
  obtain k e where q: "Query env (Body response) (JsonConvertKeyName env (Property v)) = (k, e)"
    by (cases "Query env (Body response) (JsonConvertKeyName env (Property v))")
  show ?thesis
    using q exportValue_acc [of env v k w "case e of
        Some e' \<Rightarrow> result @ [\<lparr>Key = Name v, NewValue = [], Err = Some e', Type = Created\<rparr>]
      | None \<Rightarrow> result"]
      exportValue_acc [of env v k w "case e of
        Some e' \<Rightarrow> [\<lparr>Key = Name v, NewValue = [], Err = Some e', Type = Created\<rparr>]
      | None \<Rightarrow> []"]
    by (cases "Source v"; cases e)
       (auto simp add: attachVariable_def Let_def split: option.splits list.splits)
qed

lemma attachVariable_records:
  "snd (attachVariable env response v (w, [])) = snd (attachVariable env response v (w', []))"
proof -
  obtain k e where q: "Query env (Body response) (JsonConvertKeyName env (Property v)) = (k, e)"
    by (cases "Query env (Body response) (JsonConvertKeyName env (Property v))")
  show ?thesis
    using q
      exportValue_acc [of env v k w "case e of
        Some e' \<Rightarrow> [\<lparr>Key = Name v, NewValue = [], Err = Some e', Type = Created\<rparr>]
      | None \<Rightarrow> []"]
      exportValue_acc [of env v k w' "case e of
        Some e' \<Rightarrow> [\<lparr>Key = Name v, NewValue = [], Err = Some e', Type = Created\<rparr>]
      | None \<Rightarrow> []"]
      exportValue_records [of env v k w w']
    by (cases "Source v"; cases e)
       (auto simp add: attachVariable_def Let_def split: option.splits list.splits)
qed

lemma attachLoop_app:
  "attachLoop env response (xs @ ys) acc = attachLoop env response ys (attachLoop env response xs acc)"
  by (induction xs arbitrary: acc) simp_all

lemma attachLoop_acc:
  "attachLoop env response vars (w, result) =
     (fst (attachLoop env response vars (w, [])),
      result @ snd (attachLoop env response vars (w, [])))"
proof (induction vars arbitrary: w result)
  case Nil
  then show ?case by simp
next
  case (Cons v vars)
  obtain w1 r1 where s: "attachVariable env response v (w, []) = (w1, r1)"
    by (cases "attachVariable env response v (w, [])")
  have a: "attachVariable env response v (w, result) = (w1, result @ r1)"
    using attachVariable_acc [of env response v w result] s by simp
  show ?case
    using Cons.IH [of w1 "result @ r1"] Cons.IH [of w1 r1] s a by simp
qed

lemma attachLoop_records:
  "snd (attachLoop env response vars (w, [])) = snd (attachLoop env response vars (w', []))"
proof (induction vars arbitrary: w w')
  case Nil
  then show ?case by simp
next
  case (Cons v vars)
  obtain w1 r1 where s: "attachVariable env response v (w, []) = (w1, r1)"
    by (cases "attachVariable env response v (w, [])")
  obtain w2 r2 where t: "attachVariable env response v (w', []) = (w2, r2)"
    by (cases "attachVariable env response v (w', [])")
  have r: "r1 = r2" using attachVariable_records [of env response v w w'] s t by simp
  show ?case
    using s t r attachLoop_acc [of env response vars w1 r1]
      attachLoop_acc [of env response vars w2 r2] Cons.IH [of w1 w2]
    by simp
qed

lemma exportValue_store:
  "n \<noteq> Name v \<Longrightarrow> store (fst (exportValue env v k (w, result))) n = store w n"
  by (cases k) (simp_all add: Let_def Add_def)

lemma attachVariable_store:
  assumes "n \<noteq> Name v"
  shows "store (fst (attachVariable env response v (w, result))) n = store w n"
proof -
  obtain k e where q: "Query env (Body response) (JsonConvertKeyName env (Property v)) = (k, e)"
    by (cases "Query env (Body response) (JsonConvertKeyName env (Property v))")
  show ?thesis
    using assms q
      exportValue_store [of n v env k w "case e of
        Some e' \<Rightarrow> result @ [\<lparr>Key = Name v, NewValue = [], Err = Some e', Type = Created\<rparr>]
      | None \<Rightarrow> result"]
    by (cases "Source v")
       (auto simp add: attachVariable_def Let_def Add_def split: option.splits list.splits)
qed

lemma attachLoop_store:
  "n \<notin> Name ` set vars \<Longrightarrow> store (fst (attachLoop env response vars (w, result))) n = store w n"
proof (induction vars arbitrary: w result)
  case Nil
  then show ?case by simp
next
  case (Cons v vars)
  obtain w1 r1 where s: "attachVariable env response v (w, result) = (w1, r1)"
    by (cases "attachVariable env response v (w, result)")
  have "store w1 n = store w n"
    using attachVariable_store [of n v env response w result] s Cons.prems by simp
  then show ?case using Cons.IH [of w1 r1] Cons.prems s by simp
qed

lemma attachLoop_trace_mono:
  "set (trace w) \<subseteq> set (trace (fst (attachLoop env response vars (w, result))))"
  using attachLoop_trace [of env response vars w result] by auto

lemma extraction_stores:
  assumes "\<And>w' result. attachVariable env response v (w', result) =
             (Add (Name v) x w', result @ [r])"
  shows "fst (attachVariablesToContext env response (pre @ v # post) w) =
           fst (attachVariablesToContext env response pre w0) @ [r]
           @ fst (attachVariablesToContext env response post w0)"
    and "EvAdd (Name v) x \<in> set (trace (snd (attachVariablesToContext env response (pre @ v # post) w)))"
    and "Name v \<notin> Name ` set post \<Longrightarrow>
           store (snd (attachVariablesToContext env response (pre @ v # post) w)) (Name v) = Some x"
proof -
  obtain w1 r1 where p: "attachLoop env response pre (w, []) = (w1, r1)"
    by (cases "attachLoop env response pre (w, [])")
  let ?w2 = "Add (Name v) x w1"
  obtain w3 r3 where q: "attachLoop env response post (?w2, []) = (w3, r3)"
    by (cases "attachLoop env response post (?w2, [])")
  have all: "attachLoop env response (pre @ v # post) (w, []) = (w3, r1 @ [r] @ r3)"
    using p q assms [of w1 r1] attachLoop_acc [of env response post ?w2 "r1 @ [r]"]
    by (simp add: attachLoop_app)
  have r1: "fst (attachVariablesToContext env response pre w0) = r1"
    using p attachLoop_records [of env response pre w w0]
    by (cases "attachLoop env response pre (w0, [])") (simp add: attachVariablesToContext_def)
  have r3: "fst (attachVariablesToContext env response post w0) = r3"
    using q attachLoop_records [of env response post ?w2 w0]
    by (cases "attachLoop env response post (w0, [])") (simp add: attachVariablesToContext_def)
  show "fst (attachVariablesToContext env response (pre @ v # post) w) =
           fst (attachVariablesToContext env response pre w0) @ [r]
           @ fst (attachVariablesToContext env response post w0)"
    using all r1 r3 by (simp add: attachVariablesToContext_def)
  have "EvAdd (Name v) x \<in> set (trace ?w2)" by (simp add: Add_def)
  then have "EvAdd (Name v) x \<in> set (trace w3)"
    using attachLoop_trace_mono [of ?w2 env response post "[]"] q by auto
  then show "EvAdd (Name v) x \<in> set (trace (snd (attachVariablesToContext env response (pre @ v # post) w)))"
    using all by (simp add: attachVariablesToContext_def)
  show "store (snd (attachVariablesToContext env response (pre @ v # post) w)) (Name v) = Some x"
    if "Name v \<notin> Name ` set post"
    using attachLoop_store [OF that, of env response ?w2 "[]"] q all
    by (simp add: attachVariablesToContext_def Add_def)
qed

lemma extraction_skips:
  assumes "\<And>w' result. attachVariable env response v (w', result) = (w', result)"
  shows "attachVariablesToContext env response (pre @ v # post) w =
           attachVariablesToContext env response (pre @ post) w"
proof -
  obtain w1 r1 where p: "attachLoop env response pre (w, []) = (w1, r1)"
    by (cases "attachLoop env response pre (w, [])")
  show ?thesis
    using p assms [of w1 r1] by (simp add: attachVariablesToContext_def attachLoop_app)
qed

lemma extraction_records_append:
  "fst (attachVariablesToContext env response (pre @ post) w) =
     fst (attachVariablesToContext env response pre w0)
     @ fst (attachVariablesToContext env response post w0)"
proof -
  obtain w1 r1 where p: "attachLoop env response pre (w, []) = (w1, r1)"
    by (cases "attachLoop env response pre (w, [])")
  obtain w3 r3 where q: "attachLoop env response post (w1, []) = (w3, r3)"
    by (cases "attachLoop env response post (w1, [])")
  have all: "attachLoop env response (pre @ post) (w, []) = (w3, r1 @ r3)"
    using p q attachLoop_acc [of env response post w1 r1] by (simp add: attachLoop_app)
  have r1: "fst (attachVariablesToContext env response pre w0) = r1"
    using p attachLoop_records [of env response pre w w0]
    by (cases "attachLoop env response pre (w0, [])") (simp add: attachVariablesToContext_def)
  have r3: "fst (attachVariablesToContext env response post w0) = r3"
    using q attachLoop_records [of env response post w1 w0]
    by (cases "attachLoop env response post (w0, [])") (simp add: attachVariablesToContext_def)
  show ?thesis using all r1 r3 by (simp add: attachVariablesToContext_def)
qed

lemma extraction_store_unchanged:
  "n \<notin> Name ` set vars \<Longrightarrow>
     store (snd (attachVariablesToContext env response vars w)) n = store w n"
  using attachLoop_store [of n vars env response w "[]"]
  by (cases "attachLoop env response vars (w, [])") (simp add: attachVariablesToContext_def)

lemma Run_obtained:
  assumes "StepType step = RequestStep"
    and "convertAndPatchToHttpRequest env (store w) step = (req, variables, None)"
    and "Send env req = Inr res"
    and "NewResponse env res (Sub (NowEnd env) (NowStart env)) = Inr response"
  shows "VariableCreated (fst (Run env step w)) =
           fst (attachVariablesToContext env response (Variables step)
                 (w\<lparr>trace := trace w @ [EvSend req] @ map EvAssert (Assertions step)\<rparr>))"
    and "snd (snd (Run env step w)) =
           snd (attachVariablesToContext env response (Variables step)
                 (w\<lparr>trace := trace w @ [EvSend req] @ map EvAssert (Assertions step)\<rparr>))"
  using assms by (simp_all add: Run_def request_built)

lemma example_convert_api:
  assumes "URL step = ''http://api''" and "Headers step = [''Accept'' \<mapsto> [''json'']]"
    and "StepBody step = ''token''" and "Method step = ''GET''"
  shows "convertAndPatchToHttpRequest exampleEnv (store exampleWorld) step =
     (\<lparr>req_Method = ''GET'', req_BaseURL = ''http://api'',
       req_Headers = [''Accept'' \<mapsto> ''json''],
       req_QueryParams = [''id'' \<mapsto> ''abc''],
       req_Body = ''abc''\<rparr>,
      [usedRecord ''body'' ''abc'', usedRecord ''params[id]'' ''abc''], None)"
proof -
  have e: "ExtractUrl exampleEnv step = Inr (''http://api'', [''id'' \<mapsto> ''token''])"
    using assms(1) by (simp add: exampleEnv_def)
  have h: "mergeHeaders exampleEnv (store exampleWorld) step = [''Accept'' \<mapsto> ''json'']"
    using assms(2) by (auto simp add: exampleEnv_def mergeHeaders_def flattenHeaders_def fun_eq_iff)
  show ?thesis
    using convert_ok [OF e, of "store exampleWorld"] assms(3,4)
    by (simp add: example_Range h example_Patch)
qed

lemma example_twoVarStep:
  "StepType twoVarStep = RequestStep"
  "convertAndPatchToHttpRequest exampleEnv (store exampleWorld) twoVarStep =
     (\<lparr>req_Method = ''GET'', req_BaseURL = ''http://api'',
       req_Headers = [''Accept'' \<mapsto> ''json''],
       req_QueryParams = [''id'' \<mapsto> ''abc''],
       req_Body = ''abc''\<rparr>,
      [usedRecord ''body'' ''abc'', usedRecord ''params[id]'' ''abc''], None)"
  "StepType otherHeaderStep = RequestStep"
  "convertAndPatchToHttpRequest exampleEnv (store exampleWorld) otherHeaderStep =
     (\<lparr>req_Method = ''GET'', req_BaseURL = ''http://api'',
       req_Headers = [''Accept'' \<mapsto> ''json''],
       req_QueryParams = [''id'' \<mapsto> ''abc''],
       req_Body = ''abc''\<rparr>,
      [usedRecord ''body'' ''abc'', usedRecord ''params[id]'' ''abc''], None)"
  by (simp_all add: example_convert_api twoVarStep_def otherHeaderStep_def exampleStep_def)

lemma example_elapsed: "FormatInt (roundToMillisecond 123600000) = ''124''"
  by (simp add: roundToMillisecond_def FormatInt_def formatBits_small formatBits_large digit_def)

text \<open>
  Claim C9. In a Request step that obtained a response, a declaration of source
  \<open>ResponseTime\<close> (with a name, as the data model requires) makes \<^verbatim>\<open>Run\<close> store
  the elapsed time of the response rounded to whole milliseconds, printed as a decimal
  integer (reading the string back gives the number): the created records are those of the
  declarations before it, then the one record with that value, then those of the
  declarations after it; \<^verbatim>\<open>Add\<close> is called with the name and the value, and the
  store holds the value after the step unless a later declaration has the same name. The
  rounded value is within half a millisecond of the elapsed time. The elapsed time is taken
  where \<^verbatim>\<open>Duration.Round\<close> does not saturate (within one millisecond of the bounds of
  \<^verbatim>\<open>int64\<close>, about 292 years, it returns the bound instead).
\<close>

theorem Run_ResponseTime_rounded:
  assumes "StepType step = RequestStep"
    and "convertAndPatchToHttpRequest env (store w) step = (req, variables, None)"
    and "Send env req = Inr res"
    and "NewResponse env res (Sub (NowEnd env) (NowStart env)) = Inr response"
    and "Variables step = pre @ v # post"
    and "Name v \<noteq> []" and "Source v = ResponseTime"
    and "\<bar>TimeElapsed response\<bar> \<le> maxDuration - Millisecond"
  shows "VariableCreated (fst (Run env step w)) =
           fst (attachVariablesToContext env response pre w)
           @ [createdRecord (Name v) (FormatInt (roundToMillisecond (TimeElapsed response)))]
           @ fst (attachVariablesToContext env response post w)
       \<and> EvAdd (Name v) (FormatInt (roundToMillisecond (TimeElapsed response)))
            \<in> set (trace (snd (snd (Run env step w))))
       \<and> (Name v \<notin> Name ` set post \<longrightarrow>
            store (snd (snd (Run env step w))) (Name v)
              = Some (FormatInt (roundToMillisecond (TimeElapsed response))))
       \<and> 2 * \<bar>TimeElapsed response - roundToMillisecond (TimeElapsed response) * Millisecond\<bar>
            \<le> Millisecond
       \<and> parseInt (FormatInt (roundToMillisecond (TimeElapsed response)))
            = roundToMillisecond (TimeElapsed response)"
proof -
  let ?w1 = "w\<lparr>trace := trace w @ [EvSend req] @ map EvAssert (Assertions step)\<rparr>"
  let ?ms = "FormatInt (roundToMillisecond (TimeElapsed response))"
  have body: "\<And>w' result. attachVariable env response v (w', result) =
      (Add (Name v) ?ms w', result @ [createdRecord (Name v) ?ms])"
    using assms(6-8) by (simp add: attachVariable_ResponseTime)
  note run = Run_obtained [OF assms(1-4)]
  note ext = extraction_stores [of env response v ?ms "createdRecord (Name v) ?ms", OF body]
  have "2 * \<bar>TimeElapsed response - roundToMillisecond (TimeElapsed response) * Millisecond\<bar>
          \<le> Millisecond"
    using roundToMillisecond_nearest [of "TimeElapsed response"] by (simp add: Millisecond_def)
  then show ?thesis
    using run ext(1) [of pre post ?w1 w] ext(2) [of pre post ?w1] ext(3) [of post pre ?w1] assms(5)
    by (simp add: parseInt_FormatInt)
qed

text \<open>
  The example of the specification: a response that took 123.6 ms, in a step that declares
  the elapsed time and then a header.
\<close>

theorem Run_ResponseTime_rounded_witness:
  "VariableCreated (fst (Run exampleEnv twoVarStep exampleWorld)) =
      [createdRecord ''elapsed'' ''124'', createdRecord ''rid'' ''abc'']
   \<and> EvAdd ''elapsed'' ''124'' \<in> set (trace (snd (snd (Run exampleEnv twoVarStep exampleWorld))))
   \<and> store (snd (snd (Run exampleEnv twoVarStep exampleWorld))) ''elapsed'' = Some ''124''"
proof -
  let ?v = "\<lparr>Name = ''elapsed'', Source = ResponseTime, Property = []\<rparr>"
  let ?rid = "\<lparr>Name = ''rid'', Source = ResponseHeader, Property = ''X-Req-Id''\<rparr>"
  let ?response = "\<lparr>StatusCode = 200, Header = [''X-Req-Id'' \<mapsto> [''abc'']],
          Body = JMap [(''user'', JMap [])], TimeElapsed = 123600000\<rparr>"
  have vars: "Variables twoVarStep = [] @ ?v # [?rid]" by (simp add: twoVarStep_def)
  have n: "Name ?v \<noteq> []" and s: "Source ?v = ResponseTime" by simp_all
  have b: "\<bar>TimeElapsed ?response\<bar> \<le> maxDuration - Millisecond"
    by (simp add: maxDuration_def Millisecond_def)
  have later: "Name ?v \<notin> Name ` set [?rid]" by simp
  have rest: "fst (attachVariablesToContext exampleEnv ?response [?rid] exampleWorld)
      = [createdRecord ''rid'' ''abc'']"
    by (simp add: attachVariablesToContext_def attachVariable_def)
  have first: "fst (attachVariablesToContext exampleEnv ?response [] exampleWorld) = []"
    by (simp add: attachVariablesToContext_def)
  show ?thesis
    using Run_ResponseTime_rounded [OF example_twoVarStep(1,2) example_Send(2)
        example_NewResponse vars n s b] later rest first example_elapsed
    by simp
qed

text \<open>
  Claim C8. In a Request step that obtained a response, a declaration of source
  \<open>ResponseHeader\<close> (with a name) whose header is present with a non-empty list of
  values makes \<^verbatim>\<open>Run\<close> store the first value: the created records are those of the
  declarations before it, then exactly one record with that value, then those of the
  declarations after it; \<^verbatim>\<open>Add\<close> is called with the name and the value, and the
  store holds it after the step unless a later declaration has the same name. When the
  header is absent the step runs as if the declaration were not there: no record for it, no
  call of \<^verbatim>\<open>Add\<close>, and its name keeps the value it had when no other declaration
  has that name.
\<close>

theorem Run_ResponseHeader_first_entry:
  assumes "StepType step = RequestStep"
    and "convertAndPatchToHttpRequest env (store w) step = (req, variables, None)"
    and "Send env req = Inr res"
    and "NewResponse env res (Sub (NowEnd env) (NowStart env)) = Inr response"
    and "Variables step = pre @ v # post"
    and "Name v \<noteq> []" and "Source v = ResponseHeader"
  shows "(Header response (Property v) = Some (h # hs) \<longrightarrow>
            VariableCreated (fst (Run env step w)) =
              fst (attachVariablesToContext env response pre w)
              @ [createdRecord (Name v) h]
              @ fst (attachVariablesToContext env response post w)
          \<and> EvAdd (Name v) h \<in> set (trace (snd (snd (Run env step w))))
          \<and> (Name v \<notin> Name ` set post \<longrightarrow>
               store (snd (snd (Run env step w))) (Name v) = Some h))
       \<and> (Header response (Property v) = None \<longrightarrow>
            VariableCreated (fst (Run env step w)) =
              fst (attachVariablesToContext env response pre w)
              @ fst (attachVariablesToContext env response post w)
          \<and> snd (snd (Run env step w)) =
              snd (attachVariablesToContext env response (pre @ post)
                    (w\<lparr>trace := trace w @ [EvSend req] @ map EvAssert (Assertions step)\<rparr>))
          \<and> (Name v \<notin> Name ` set (pre @ post) \<longrightarrow>
               store (snd (snd (Run env step w))) (Name v) = store w (Name v)))"
proof -
  let ?w1 = "w\<lparr>trace := trace w @ [EvSend req] @ map EvAssert (Assertions step)\<rparr>"
  note run = Run_obtained [OF assms(1-4)]
  have present: ?thesis if p: "Header response (Property v) = Some (h # hs)"
  proof -
    have body: "\<And>w' result. attachVariable env response v (w', result) =
        (Add (Name v) h w', result @ [createdRecord (Name v) h])"
      using assms(6,7) p by (simp add: attachVariable_ResponseHeader_present)
    note ext = extraction_stores [of env response v h "createdRecord (Name v) h", OF body]
    show ?thesis
      using run ext(1) [of pre post ?w1 w] ext(2) [of pre post ?w1] ext(3) [of post pre ?w1]
        assms(5) p
      by simp
  qed
  have absent: ?thesis if a: "Header response (Property v) = None"
  proof -
    have body: "\<And>w' result. attachVariable env response v (w', result) = (w', result)"
      using assms(6,7) a by (simp add: attachVariable_ResponseHeader_absent)
    have same: "attachVariablesToContext env response (pre @ v # post) ?w1
        = attachVariablesToContext env response (pre @ post) ?w1"
      using body by (rule extraction_skips)
    have recs: "fst (attachVariablesToContext env response (pre @ post) ?w1)
        = fst (attachVariablesToContext env response pre w)
          @ fst (attachVariablesToContext env response post w)"
      by (rule extraction_records_append)
    have st: "store (snd (attachVariablesToContext env response (pre @ post) ?w1)) (Name v)
        = store w (Name v)" if "Name v \<notin> Name ` set (pre @ post)"
      using extraction_store_unchanged [OF that, of env response ?w1] by simp
    show ?thesis
      using run same recs st assms(5) a by simp
  qed
  show ?thesis
  proof (cases "Header response (Property v)")
    case None
    then show ?thesis by (rule absent)
  next
    case (Some l)
    show ?thesis
    proof (cases "l = h # hs")
      case True
      with Some show ?thesis by (simp add: present)
    next
      case False
      with Some show ?thesis by simp
    qed
  qed
qed

text \<open>
  The example of the specification (header \<^verbatim>\<open>X-Req-Id: ["abc"]\<close>, declaration
  \<^verbatim>\<open>rid\<close>) after a declaration of the elapsed time, and the same step declaring a
  header the response does not have.
\<close>

theorem Run_ResponseHeader_first_entry_witness:
  "VariableCreated (fst (Run exampleEnv twoVarStep exampleWorld)) =
      [createdRecord ''elapsed'' ''124'', createdRecord ''rid'' ''abc'']
   \<and> EvAdd ''rid'' ''abc'' \<in> set (trace (snd (snd (Run exampleEnv twoVarStep exampleWorld))))
   \<and> store (snd (snd (Run exampleEnv twoVarStep exampleWorld))) ''rid'' = Some ''abc''
   \<and> VariableCreated (fst (Run exampleEnv otherHeaderStep exampleWorld)) =
      [createdRecord ''elapsed'' ''124'']
   \<and> store (snd (snd (Run exampleEnv otherHeaderStep exampleWorld))) ''rid'' = None"
proof -
  let ?t = "\<lparr>Name = ''elapsed'', Source = ResponseTime, Property = []\<rparr>"
  let ?rid = "\<lparr>Name = ''rid'', Source = ResponseHeader, Property = ''X-Req-Id''\<rparr>"
  let ?other = "\<lparr>Name = ''rid'', Source = ResponseHeader, Property = ''X-Other''\<rparr>"
  let ?response = "\<lparr>StatusCode = 200, Header = [''X-Req-Id'' \<mapsto> [''abc'']],
          Body = JMap [(''user'', JMap [])], TimeElapsed = 123600000\<rparr>"
  have vars1: "Variables twoVarStep = [?t] @ ?rid # []" by (simp add: twoVarStep_def)
  have vars2: "Variables otherHeaderStep = [?t] @ ?other # []" by (simp add: otherHeaderStep_def)
  have n1: "Name ?rid \<noteq> []" and s1: "Source ?rid = ResponseHeader" by simp_all
  have n2: "Name ?other \<noteq> []" and s2: "Source ?other = ResponseHeader" by simp_all
  have p: "Header ?response (Property ?rid) = Some (''abc'' # [])" by simp
  have a: "Header ?response (Property ?other) = None" by simp
  have later: "Name ?rid \<notin> Name ` set []" by simp
  have others: "Name ?other \<notin> Name ` set ([?t] @ [])" by simp
  have first: "fst (attachVariablesToContext exampleEnv ?response [?t] exampleWorld)
      = [createdRecord ''elapsed'' ''124'']"
    using attachVariable_ResponseTime [of ?t ?response exampleEnv exampleWorld "[]"] example_elapsed
    by (simp add: attachVariablesToContext_def maxDuration_def Millisecond_def)
  have last: "fst (attachVariablesToContext exampleEnv ?response [] exampleWorld) = []"
    by (simp add: attachVariablesToContext_def)
  note present = Run_ResponseHeader_first_entry [OF example_twoVarStep(1,2) example_Send(2)
        example_NewResponse vars1 n1 s1, of "''abc''" "[]", THEN conjunct1]
  note absent = Run_ResponseHeader_first_entry [OF example_twoVarStep(3,4) example_Send(2)
        example_NewResponse vars2 n2 s2, of "''abc''" "[]", THEN conjunct2]
  have c1: "VariableCreated (fst (Run exampleEnv twoVarStep exampleWorld)) =
      [createdRecord ''elapsed'' ''124'', createdRecord ''rid'' ''abc'']"
    using present p first last by simp
  have c2: "EvAdd ''rid'' ''abc'' \<in> set (trace (snd (snd (Run exampleEnv twoVarStep exampleWorld))))"
    using present p by simp
  have c3: "store (snd (snd (Run exampleEnv twoVarStep exampleWorld))) ''rid'' = Some ''abc''"
    using present p later by simp
  have c4: "VariableCreated (fst (Run exampleEnv otherHeaderStep exampleWorld)) =
      [createdRecord ''elapsed'' ''124'']"
    using absent a first last by simp
  have "store (snd (snd (Run exampleEnv otherHeaderStep exampleWorld))) (Name ?other)
      = store exampleWorld (Name ?other)"
    using absent a others by blast
  then have c5: "store (snd (snd (Run exampleEnv otherHeaderStep exampleWorld))) ''rid'' = None"
    by (simp add: exampleWorld_def)
  show ?thesis using c1 c2 c3 c4 c5 by simp
qed

end
